theory Spec2Isabelle
  imports Complex_Main "HOL-Library.Log_Nat"
begin

section \<open>Python values, errors and strings\<close>

text \<open>
  The embedding follows \<^verbatim>\<open>src/pipapr/runner.py\<close>. A raised exception is a value
  \<open>Inl e\<close> of a sum type, a normal return is \<open>Inr v\<close>.
\<close>

datatype py_error =
    AttributeError string
  | TypeError string
  | UnboundLocalError string
  | KeyError string
  | ValueError string
  | OverflowError string
  | ZeroDivisionError
  | OSError string

definition bindE :: "'e + 'a \<Rightarrow> ('a \<Rightarrow> 'e + 'b) \<Rightarrow> 'e + 'b" where
  "bindE m f = (case m of Inl e \<Rightarrow> Inl e | Inr v \<Rightarrow> f v)"

subsection \<open>Double-precision floats\<close>

text \<open>
  A Python float is an IEEE 754 double: a finite value, an infinity or a NaN. A finite
  double is given by the rational it denotes (the sign of zero is not kept: the program
  never looks at it). Every operation computes the exact result and rounds it to the
  nearest double, ties to the even mantissa, as \<open>round_double\<close> does: the result has a
  mantissa of 53 bits at the exponent of the exact value, or is a multiple of
  \<open>2^-1074\<close> in the subnormal range; a rounded value of \<open>2^1024\<close> or more is an
  infinity.
\<close>

datatype pyfloat = Finite rat | PosInf | NegInf | NaN

text \<open>The exponent of a positive rational: \<open>2^(ilog2 a) \<le> a < 2^(ilog2 a + 1)\<close>.\<close>

definition ilog2 :: "rat \<Rightarrow> int" where
  "ilog2 a = (if 1 \<le> a then bitlen \<lfloor>a\<rfloor> - 1 else - bitlen (\<lceil>1 / a\<rceil> - 1))"

definition round_half_even :: "rat \<Rightarrow> int" where
  "round_half_even y =
     (let f = \<lfloor>y\<rfloor>; d = y - of_int f
      in if d < 1 / 2 then f else if 1 / 2 < d then f + 1 else if even f then f else f + 1)"

definition round_double :: "rat \<Rightarrow> rat" where
  "round_double x =
     (if x = 0 then 0
      else
        let e = max (ilog2 \<bar>x\<bar> - 52) (- 1074)
        in sgn x * of_int (round_half_even (\<bar>x\<bar> / 2 powi e)) * 2 powi e)"

definition fl :: "rat \<Rightarrow> pyfloat" where
  "fl x =
     (let y = round_double x
      in if 2 ^ 1024 \<le> \<bar>y\<bar> then (if 0 < y then PosInf else NegInf) else Finite y)"

fun fsign :: "pyfloat \<Rightarrow> int" where
  "fsign (Finite x) = (if 0 < x then 1 else if x < 0 then - 1 else 0)"
| "fsign PosInf = 1"
| "fsign NegInf = - 1"
| "fsign NaN = 0"

fun fneg :: "pyfloat \<Rightarrow> pyfloat" where
  "fneg (Finite x) = Finite (- x)"
| "fneg PosInf = NegInf"
| "fneg NegInf = PosInf"
| "fneg NaN = NaN"

fun fadd :: "pyfloat \<Rightarrow> pyfloat \<Rightarrow> pyfloat" where
  "fadd (Finite x) (Finite y) = fl (x + y)"
| "fadd NaN b = NaN"
| "fadd a NaN = NaN"
| "fadd PosInf NegInf = NaN"
| "fadd NegInf PosInf = NaN"
| "fadd PosInf b = PosInf"
| "fadd NegInf b = NegInf"
| "fadd a PosInf = PosInf"
| "fadd a NegInf = NegInf"

definition fsub :: "pyfloat \<Rightarrow> pyfloat \<Rightarrow> pyfloat" where
  "fsub a b = fadd a (fneg b)"

fun fmul :: "pyfloat \<Rightarrow> pyfloat \<Rightarrow> pyfloat" where
  "fmul (Finite x) (Finite y) = fl (x * y)"
| "fmul NaN b = NaN"
| "fmul a NaN = NaN"
| "fmul a b =
     (if fsign a * fsign b = 0 then NaN else if 0 < fsign a * fsign b then PosInf else NegInf)"

fun fdiv :: "pyfloat \<Rightarrow> pyfloat \<Rightarrow> pyfloat" where
  "fdiv (Finite x) (Finite y) =
     (if y = 0 then (if x = 0 then NaN else if 0 < x then PosInf else NegInf) else fl (x / y))"
| "fdiv NaN b = NaN"
| "fdiv a NaN = NaN"
| "fdiv (Finite x) b = Finite 0"
| "fdiv a (Finite y) = (if (a = PosInf) = (0 \<le> y) then PosInf else NegInf)"
| "fdiv a b = NaN"

text \<open>Python's \<^verbatim>\<open>a / b\<close> on floats raises on a zero divisor.\<close>

definition py_truediv :: "pyfloat \<Rightarrow> pyfloat \<Rightarrow> py_error + pyfloat" where
  "py_truediv a b = (if b = Finite 0 then Inl ZeroDivisionError else Inr (fdiv a b))"

text \<open>Truncation towards zero.\<close>

definition trunc :: "rat \<Rightarrow> int" where
  "trunc x = (if 0 \<le> x then \<lfloor>x\<rfloor> else \<lceil>x\<rceil>)"

text \<open>
  \<^verbatim>\<open>np.mod\<close> on doubles: the remainder of C's \<^verbatim>\<open>fmod\<close> (exact, with the sign
  of the dividend), to which the divisor is added, with rounding, when the remainder is
  not zero and its sign differs from the divisor's. A zero divisor gives NaN (and a
  warning), not an exception.
\<close>

fun np_mod :: "pyfloat \<Rightarrow> pyfloat \<Rightarrow> pyfloat" where
  "np_mod (Finite x) (Finite y) =
     (if y = 0 then NaN
      else
        let r = x - y * of_int (trunc (x / y))
        in if r \<noteq> 0 \<and> (y < 0) \<noteq> (r < 0) then fl (r + y) else Finite r)"
| "np_mod (Finite x) PosInf = (if x < 0 then PosInf else Finite x)"
| "np_mod (Finite x) NegInf = (if 0 < x then NegInf else Finite x)"
| "np_mod a b = NaN"

fun np_absolute :: "pyfloat \<Rightarrow> pyfloat" where
  "np_absolute (Finite x) = Finite \<bar>x\<bar>"
| "np_absolute NaN = NaN"
| "np_absolute a = PosInf"

fun np_ceil :: "pyfloat \<Rightarrow> pyfloat" where
  "np_ceil (Finite x) = Finite (of_int \<lceil>x\<rceil>)"
| "np_ceil a = a"

text \<open>\<^verbatim>\<open>int(x)\<close> on a float truncates; it raises on NaN and on an infinity.\<close>

fun py_int :: "pyfloat \<Rightarrow> py_error + int" where
  "py_int (Finite x) = Inr (trunc x)"
| "py_int NaN = Inl (ValueError ''cannot convert float NaN to integer'')"
| "py_int a = Inl (OverflowError ''cannot convert float infinity to integer'')"

text \<open>
  The conversion of an integer operand in mixed arithmetic: the nearest double, or
  \<^verbatim>\<open>OverflowError\<close> when there is none.
\<close>

definition float_of_int :: "int \<Rightarrow> py_error + pyfloat" where
  "float_of_int n =
     (case fl (of_int n) of
        Finite x \<Rightarrow> Inr (Finite x)
      | _ \<Rightarrow> Inl (OverflowError ''int too large to convert to float''))"

subsection \<open>Values and attributes\<close>

datatype pyval =
    VNone
  | VBool bool
  | VInt int
  | VFloat pyfloat
  | VStr string
  | VList "pyval list"
  | VObject string

text \<open>\<^verbatim>\<open>bool\<close> is a subtype of \<^verbatim>\<open>int\<close>.\<close>

fun int_of :: "pyval \<Rightarrow> int option" where
  "int_of (VBool b) = Some (if b then 1 else 0)"
| "int_of (VInt i) = Some i"
| "int_of _ = None"

fun as_float :: "pyval \<Rightarrow> (py_error + pyfloat) option" where
  "as_float (VBool b) = Some (Inr (Finite (if b then 1 else 0)))"
| "as_float (VInt i) = Some (float_of_int i)"
| "as_float (VFloat x) = Some (Inr x)"
| "as_float _ = None"

text \<open>
  \<^verbatim>\<open>a - b\<close>: two integers subtract exactly, a float and a number as floats, every
  other pair of operands raises \<^verbatim>\<open>TypeError\<close>.
\<close>

definition py_sub :: "pyval \<Rightarrow> pyval \<Rightarrow> py_error + pyval" where
  "py_sub a b =
     (case (int_of a, int_of b) of
        (Some x, Some y) \<Rightarrow> Inr (VInt (x - y))
      | _ \<Rightarrow>
          (case (as_float a, as_float b) of
             (Some fa, Some fb) \<Rightarrow> bindE fa (\<lambda>x. bindE fb (\<lambda>y. Inr (VFloat (fsub x y))))
           | _ \<Rightarrow> Inl (TypeError ''unsupported operand type(s) for -'')))"

text \<open>
  \<^verbatim>\<open>a == b\<close>: numbers compare by their exact values (a NaN equals nothing), other
  values structurally.
\<close>

fun num_val :: "pyval \<Rightarrow> pyfloat option" where
  "num_val (VBool b) = Some (Finite (if b then 1 else 0))"
| "num_val (VInt i) = Some (Finite (of_int i))"
| "num_val (VFloat x) = Some x"
| "num_val _ = None"

definition py_eq :: "pyval \<Rightarrow> pyval \<Rightarrow> bool" where
  "py_eq a b =
     (case (num_val a, num_val b) of
        (Some x, Some y) \<Rightarrow> x \<noteq> NaN \<and> x = y
      | _ \<Rightarrow> a = b)"

text \<open>
  The instance dictionary of an object (\<^verbatim>\<open>vars(self)\<close>) is an association list
  from attribute names to values; reading a name that is neither in it nor defined by the
  class raises \<^verbatim>\<open>AttributeError\<close>.
\<close>

definition getattr :: "(string \<times> pyval) list \<Rightarrow> string \<Rightarrow> py_error + pyval" where
  "getattr vars a = (case map_of vars a of None \<Rightarrow> Inl (AttributeError a) | Some v \<Rightarrow> Inr v)"

subsection \<open>Strings, paths and decimal numerals\<close>

text \<open>
  A string is a list of characters with code points below 256, the range of the type
  \<open>char\<close>; strings with other code points are outside the model. On this range
  \<^verbatim>\<open>\d\<close> matches the ten ASCII digits and nothing else, \<^verbatim>\<open>\w\<close> matches the
  ASCII letters, digits and underscore and the letters and numeric characters of the
  upper half, and \<^verbatim>\<open>str.isnumeric\<close> accepts the ASCII digits and the six numeric
  characters of the upper half (superscript one, two, three and the three fractions).
\<close>

definition is_digit :: "char \<Rightarrow> bool" where
  "is_digit c = (List.member ''0123456789'' c)"

definition in_range :: "nat \<Rightarrow> nat \<Rightarrow> char \<Rightarrow> bool" where
  "in_range lo hi c = (lo \<le> of_char c \<and> (of_char c :: nat) \<le> hi)"

definition is_word_char :: "char \<Rightarrow> bool" where
  "is_word_char c =
     (in_range 0x30 0x39 c \<or> in_range 0x41 0x5A c \<or> in_range 0x5F 0x5F c
      \<or> in_range 0x61 0x7A c \<or> in_range 0xAA 0xAA c \<or> in_range 0xB2 0xB3 c
      \<or> in_range 0xB5 0xB5 c \<or> in_range 0xB9 0xBA c \<or> in_range 0xBC 0xBE c
      \<or> in_range 0xC0 0xD6 c \<or> in_range 0xD8 0xF6 c \<or> in_range 0xF8 0xFF c)"

definition is_numeric_char :: "char \<Rightarrow> bool" where
  "is_numeric_char c =
     (in_range 0x30 0x39 c \<or> in_range 0xB2 0xB3 c \<or> in_range 0xB9 0xB9 c
      \<or> in_range 0xBC 0xBE c)"

definition digit_val :: "char \<Rightarrow> int" where
  "digit_val c = int (of_char c) - 48"

text \<open>\<^verbatim>\<open>int(s)\<close> on a string of decimal digits (leading zeros allowed).\<close>

definition int_of_digits :: "string \<Rightarrow> int" where
  "int_of_digits s = foldl (\<lambda>acc c. 10 * acc + digit_val c) 0 s"

definition digit_char :: "nat \<Rightarrow> char" where
  "digit_char d = char_of (48 + d)"

text \<open>\<^verbatim>\<open>str(n)\<close> for an integer, as \<^verbatim>\<open>'{}'.format(n)\<close> renders it.\<close>

fun str_of_nat :: "nat \<Rightarrow> string" where
  "str_of_nat n = (if n < 10 then [digit_char n] else str_of_nat (n div 10) @ [digit_char (n mod 10)])"

definition str_of_int :: "int \<Rightarrow> string" where
  "str_of_int i = (if i < 0 then CHR ''-'' # str_of_nat (nat (- i)) else str_of_nat (nat i))"

text \<open>\<^verbatim>\<open>os.path.join(a, b)\<close> on POSIX.\<close>

definition os_path_join :: "string \<Rightarrow> string \<Rightarrow> string" where
  "os_path_join a b =
     (if b \<noteq> [] \<and> hd b = CHR ''/'' then b
      else if a = [] \<or> last a = CHR ''/'' then a @ b
      else a @ ''/'' @ b)"

section \<open>The clearscope coordinate decoder\<close>

text \<open>
  Both decoders search the path with the same regular expression, six digits, an
  underscore, six digits, three underscores, a digit and \<^verbatim>\<open>c\<close>, and differ in
  the group they capture (the index for \<^verbatim>\<open>_get_row_col\<close>, the channel digit for
  \<^verbatim>\<open>_get_channel\<close>). The expression has a fixed length of 18 characters, so a match
  at a position is decided by the 18 characters there. \<open>match_tile_name\<close> returns both
  groups of a match at the head of the string.
\<close>

definition match_tile_name :: "string \<Rightarrow> (string \<times> string) option" where
  "match_tile_name s =
     (if 18 \<le> length s
         \<and> list_all is_digit (take 6 s)
         \<and> take 1 (drop 6 s) = ''_''
         \<and> list_all is_digit (take 6 (drop 7 s))
         \<and> take 3 (drop 13 s) = ''___''
         \<and> list_all is_digit (take 1 (drop 16 s))
         \<and> take 1 (drop 17 s) = ''c''
      then Some (take 6 (drop 7 s), take 1 (drop 16 s))
      else None)"

text \<open>
  \<^verbatim>\<open>re.findall\<close>: scan from the left, collect a match and go on behind it,
  otherwise move one character on.
\<close>

function findall_tile_name :: "string \<Rightarrow> (string \<times> string) list" where
  "findall_tile_name [] = []"
| "findall_tile_name (c # cs) =
     (case match_tile_name (c # cs) of
        Some g \<Rightarrow> g # findall_tile_name (drop 18 (c # cs))
      | None \<Rightarrow> findall_tile_name cs)"
  by pat_completeness auto
termination
  by (relation "measure length") auto

declare findall_tile_name.simps [simp del]

text \<open>
  A value of the settings dictionary, as \<^verbatim>\<open>_parse_acquisition_settings\<close> types it:
  a float, a boolean or a string. \<^verbatim>\<open>self.nrow\<close> and \<^verbatim>\<open>self.ncol\<close> of a
  clearscope pipeline are such values.
\<close>

datatype setting = SFloat pyfloat | SBool bool | SStr string

text \<open>
  The arithmetic of \<^verbatim>\<open>_get_row_col\<close> on the index \<open>n\<close>, a Python integer, with
  a float \<^verbatim>\<open>self.ncol\<close>:
  \<^verbatim>\<open>col = np.absolute(np.mod(n - self.ncol - 1, 2 * self.ncol) - self.ncol + 0.5) + 0.5\<close>,
  \<^verbatim>\<open>row = np.ceil(n / self.ncol)\<close>, then \<^verbatim>\<open>col = int(col-1)\<close> and
  \<^verbatim>\<open>row = int(row-1)\<close>, each operation in double precision. The expression for
  \<^verbatim>\<open>col\<close> does not raise; the division for \<^verbatim>\<open>row\<close> raises on a zero
  \<^verbatim>\<open>self.ncol\<close>.
\<close>

definition row_col_of_index :: "pyfloat \<Rightarrow> int \<Rightarrow> py_error + (int \<times> int)" where
  "row_col_of_index ncol n =
     bindE (float_of_int n) (\<lambda>fn.
       let col = fadd (np_absolute (fadd (fsub (np_mod (fsub (fsub fn ncol) (Finite 1))
                                                       (fmul (Finite 2) ncol))
                                                ncol)
                                          (Finite (1 / 2))))
                      (Finite (1 / 2))
       in bindE (py_truediv fn ncol) (\<lambda>quotient.
            let row = np_ceil quotient
            in bindE (py_int (fsub col (Finite 1))) (\<lambda>col.
               bindE (py_int (fsub row (Finite 1))) (\<lambda>row.
                 Inr (row, col)))))"

text \<open>
  \<^verbatim>\<open>_get_row_col(self, path)\<close>, with \<^verbatim>\<open>self.ncol\<close> as its first argument. The
  local \<^verbatim>\<open>n\<close> is assigned only under \<^verbatim>\<open>if pattern_search != []\<close>; the
  expression for \<^verbatim>\<open>col\<close> reads it first, so without a match the read of the
  unassigned local raises \<^verbatim>\<open>UnboundLocalError\<close>. The index has six digits, so
  with a boolean \<^verbatim>\<open>self.ncol\<close> the integer arithmetic Python then uses gives
  what the float arithmetic gives on 1.0 and 0.0; a string raises at the first
  subtraction.
\<close>

definition get_row_col :: "setting \<Rightarrow> string \<Rightarrow> py_error + (int \<times> int)" where
  "get_row_col ncol path =
     (let pattern_search = map fst (findall_tile_name path) in
      case pattern_search of
        [] \<Rightarrow> Inl (UnboundLocalError ''n'')
      | g # _ \<Rightarrow>
          (case ncol of
             SFloat x \<Rightarrow> row_col_of_index x (int_of_digits g)
           | SBool b \<Rightarrow> row_col_of_index (Finite (if b then 1 else 0)) (int_of_digits g)
           | SStr s \<Rightarrow> Inl (TypeError ''unsupported operand type(s) for -'')))"

text \<open>
  \<^verbatim>\<open>_get_channel(self, path)\<close>: the channel digit of the first match; without a
  match the function falls off its end and returns \<^verbatim>\<open>None\<close>.
\<close>

definition get_channel :: "string \<Rightarrow> int option" where
  "get_channel path =
     (let pattern_search = map snd (findall_tile_name path) in
      case pattern_search of
        [] \<Rightarrow> None
      | g # _ \<Rightarrow> Some (int_of_digits g))"

text \<open>
  The serpentine scan in closed form: the row is the quotient of \<open>n - 1\<close> by the row
  length, the column is the remainder on even rows and its mirror image on odd rows.
\<close>

definition serpentine :: "int \<Rightarrow> int \<Rightarrow> int \<times> int" where
  "serpentine c n =
     ((n - 1) div c, if even ((n - 1) div c) then (n - 1) mod c else c - 1 - (n - 1) mod c)"


section \<open>The tile entity\<close>

text \<open>
  \<^verbatim>\<open>runningTile\<close>: the attributes its constructor assigns that the pipeline reads
  (the neighbour attributes are \<^verbatim>\<open>None\<close> for every tile the pipeline builds). The
  pixel data is of an arbitrary type \<open>'px\<close>; \<open>t_apr\<close> stands for the pair
  \<^verbatim>\<open>(self.apr, self.parts)\<close>.
\<close>

record 'px running_tile =
  t_path :: string
  t_row :: int
  t_col :: int
  t_type :: string
  t_frame_size :: int
  t_folder_root :: string
  t_channel :: "int option"
  t_n_channels :: int
  t_data :: "'px option"
  t_apr :: "'px option"

definition runningTile ::
  "string \<Rightarrow> int \<Rightarrow> int \<Rightarrow> string \<Rightarrow> int \<Rightarrow> string \<Rightarrow> int option \<Rightarrow> int \<Rightarrow> 'px running_tile" where
  "runningTile path row col ftype frame_size folder_root channel n_channels =
     \<lparr>t_path = path, t_row = row, t_col = col, t_type = ftype, t_frame_size = frame_size,
      t_folder_root = folder_root, t_channel = channel, t_n_channels = n_channels,
      t_data = None, t_apr = None\<rparr>"

text \<open>
  What the program asks of its surroundings: \<open>io_glob k pattern\<close> is the answer of the
  \<open>k\<close>-th \<^verbatim>\<open>glob\<close> call of a run (the instrument writes files while the pipeline
  polls, so the answer depends on \<open>k\<close>); \<open>io_read\<close> reads the pixels of a tile of a
  given type (\<^verbatim>\<open>imread\<close>, \<^verbatim>\<open>np.fromfile\<close>, \<^verbatim>\<open>pyapr.io.read\<close>);
  \<open>io_remove\<close> is \<^verbatim>\<open>os.remove\<close>; \<open>io_convert\<close> is the body of
  \<^verbatim>\<open>_convert_to_apr\<close>, which consists of calls into the pyapr library;
  \<open>io_readlines\<close> opens a text file and reads its lines. Each may raise.
\<close>

record 'px io =
  io_glob :: "nat \<Rightarrow> string \<Rightarrow> string list"
  io_read :: "string \<Rightarrow> string \<Rightarrow> py_error + 'px"
  io_remove :: "string \<Rightarrow> py_error + unit"
  io_convert :: "'px running_tile \<Rightarrow> py_error + unit"
  io_readlines :: "string \<Rightarrow> py_error + string list"

text \<open>
  \<^verbatim>\<open>_load_data\<close>: one loader per tile type (\<^verbatim>\<open>_load_clearscope\<close> reads
  \<^verbatim>\<open>self.path\<close>, not its argument), \<^verbatim>\<open>TypeError\<close> for any other type.
\<close>

definition load_data :: "'px io \<Rightarrow> 'px running_tile \<Rightarrow> string \<Rightarrow> py_error + 'px" where
  "load_data io tile path =
     (if t_type tile = ''colm'' then io_read io ''colm'' path
      else if t_type tile = ''clearscope'' then io_read io ''clearscope'' (t_path tile)
      else if t_type tile = ''tiff3D'' then io_read io ''tiff3D'' path
      else if t_type tile = ''apr'' then io_read io ''apr'' path
      else if t_type tile = ''raw'' then io_read io ''raw'' path
      else Inl (TypeError ''Error: image type not supported.''))"

definition load_tile :: "'px io \<Rightarrow> 'px running_tile \<Rightarrow> py_error + 'px running_tile" where
  "load_tile io tile =
     (if t_type tile = ''apr'' then
        (if t_apr tile = None
         then bindE (load_data io tile (t_path tile)) (\<lambda>u. Inr (tile\<lparr>t_apr := Some u\<rparr>))
         else Inr tile)
      else
        (if t_data tile = None
         then bindE (load_data io tile (t_path tile)) (\<lambda>u. Inr (tile\<lparr>t_data := Some u\<rparr>))
         else Inr tile))"

text \<open>
  \<^verbatim>\<open>_erase_from_disk\<close>. The list \<open>removed\<close> records the paths the run has handed
  to \<^verbatim>\<open>os.remove\<close>; nothing else in the program deletes a file.
\<close>

definition erase_from_disk :: "'px io \<Rightarrow> 'px running_tile \<Rightarrow> string list \<Rightarrow> py_error + string list" where
  "erase_from_disk io tile removed =
     (if t_type tile = ''tiff3D''
      then bindE (io_remove io (t_path tile)) (\<lambda>_. Inr (removed @ [t_path tile]))
      else Inr removed)"

text \<open>
  \<^verbatim>\<open>_get_tile\<close> calls \<^verbatim>\<open>self._get_row_col\<close> and \<^verbatim>\<open>self._get_channel\<close>
  and builds the tile with \<^verbatim>\<open>self.type\<close>, \<^verbatim>\<open>self.path\<close> and
  \<^verbatim>\<open>self.n_channels\<close>; the two decoders and the three attributes are its first
  five arguments.
\<close>

definition get_tile ::
  "(string \<Rightarrow> py_error + int \<times> int) \<Rightarrow> (string \<Rightarrow> py_error + int option) \<Rightarrow>
   string \<Rightarrow> string \<Rightarrow> int \<Rightarrow> string \<Rightarrow> py_error + 'px running_tile" where
  "get_tile row_col_hook channel_hook ftype folder_root n_channels path =
     bindE (row_col_hook path) (\<lambda>(row, col).
     bindE (channel_hook path) (\<lambda>channel.
       Inr (runningTile path row col ftype 2048 folder_root channel n_channels)))"

section \<open>The default pipeline\<close>

text \<open>
  \<^verbatim>\<open>baseRunningPipeline\<close>: one field per attribute its constructor assigns; no
  method of the class assigns any other attribute. The cursors \<^verbatim>\<open>next_tile\<close> and
  \<^verbatim>\<open>current_tile\<close> are two-element lists \<^verbatim>\<open>[row, col]\<close>, the second
  \<^verbatim>\<open>None\<close> until a tile is found. \<open>bp_converter\<close> says whether
  \<^verbatim>\<open>self.converter\<close> is an object rather than \<^verbatim>\<open>None\<close>, \<open>bp_stitcher\<close>
  whether \<^verbatim>\<open>self.stitcher\<close> is \<^verbatim>\<open>True\<close> rather than \<^verbatim>\<open>None\<close>.
\<close>

record base_pipeline =
  bp_path :: string
  bp_next_tile :: "int \<times> int"
  bp_frame_size :: int
  bp_tile_processed :: int
  bp_nrow :: int
  bp_ncol :: int
  bp_n_tiles :: int
  bp_current_tile :: "(int \<times> int) option"
  bp_type :: string
  bp_n_channels :: int
  bp_converter :: bool
  bp_lazy_loading :: "bool option"
  bp_compression :: bool
  bp_bg :: "int option"
  bp_quantization_factor :: "int option"
  bp_folder_apr :: "string option"
  bp_stitcher :: bool
  bp_overlap_h :: "pyfloat option"
  bp_overlap_v :: "pyfloat option"
  bp_n_vertex :: "int option"
  bp_folder_max_projs :: "string option"

text \<open>\<^verbatim>\<open>baseRunningPipeline.__init__(path, nrow, ncol, n_channels, ftype)\<close>.\<close>

definition base_init :: "string \<Rightarrow> int \<Rightarrow> int \<Rightarrow> int \<Rightarrow> string \<Rightarrow> base_pipeline" where
  "base_init path nrow ncol n_channels ftype =
     \<lparr>bp_path = path, bp_next_tile = (0, 0), bp_frame_size = 2048, bp_tile_processed = 0,
      bp_nrow = nrow, bp_ncol = ncol, bp_n_tiles = nrow * ncol, bp_current_tile = None,
      bp_type = ftype, bp_n_channels = n_channels,
      bp_converter = False, bp_lazy_loading = None, bp_compression = False, bp_bg = None,
      bp_quantization_factor = None, bp_folder_apr = None,
      bp_stitcher = False, bp_overlap_h = None, bp_overlap_v = None, bp_n_vertex = None,
      bp_folder_max_projs = None\<rparr>"

definition opt_val :: "('a \<Rightarrow> pyval) \<Rightarrow> 'a option \<Rightarrow> pyval" where
  "opt_val f x = (case x of None \<Rightarrow> VNone | Some v \<Rightarrow> f v)"

definition cursor_val :: "int \<times> int \<Rightarrow> pyval" where
  "cursor_val rc = VList [VInt (fst rc), VInt (snd rc)]"

text \<open>
  The instance dictionary of a default pipeline: the names the constructor assigns, with
  the values of the fields. A field read in the model is the read of its name here; a
  name outside this list is read through \<open>getattr\<close>.
\<close>

definition base_vars :: "base_pipeline \<Rightarrow> (string \<times> pyval) list" where
  "base_vars self =
     [(''path'', VStr (bp_path self)),
      (''next_tile'', cursor_val (bp_next_tile self)),
      (''frame_size'', VInt (bp_frame_size self)),
      (''tile_processed'', VInt (bp_tile_processed self)),
      (''nrow'', VInt (bp_nrow self)),
      (''ncol'', VInt (bp_ncol self)),
      (''n_tiles'', VInt (bp_n_tiles self)),
      (''current_tile'', opt_val cursor_val (bp_current_tile self)),
      (''type'', VStr (bp_type self)),
      (''n_channels'', VInt (bp_n_channels self)),
      (''converter'', if bp_converter self then VObject ''FloatConverter'' else VNone),
      (''lazy_loading'', opt_val VBool (bp_lazy_loading self)),
      (''compression'', VBool (bp_compression self)),
      (''bg'', opt_val VInt (bp_bg self)),
      (''quantization_factor'', opt_val VInt (bp_quantization_factor self)),
      (''folder_apr'', opt_val VStr (bp_folder_apr self)),
      (''stitcher'', if bp_stitcher self then VBool True else VNone),
      (''overlap_h'', opt_val VFloat (bp_overlap_h self)),
      (''overlap_v'', opt_val VFloat (bp_overlap_v self)),
      (''n_vertex'', opt_val VInt (bp_n_vertex self)),
      (''folder_max_projs'', opt_val VStr (bp_folder_max_projs self))]"

text \<open>
  \<^verbatim>\<open>_get_tile\<close> calls \<^verbatim>\<open>self._get_row_col\<close> and
  \<^verbatim>\<open>self._get_channel\<close>, which Python resolves on the object: a \<open>decoder\<close> is
  what the two names resolve to. \<^verbatim>\<open>baseRunningPipeline\<close> defines neither method
  and no attribute of these names (only \<^verbatim>\<open>clearscopeRunningPipeline\<close> defines
  them), so on an instance of the class itself each call is the read of a missing
  attribute: \<open>base_decoder\<close>.
\<close>

record decoder =
  d_row_col :: "string \<Rightarrow> py_error + int \<times> int"
  d_channel :: "string \<Rightarrow> py_error + int option"

definition base_decoder :: "base_pipeline \<Rightarrow> decoder" where
  "base_decoder self =
     \<lparr>d_row_col = (\<lambda>path. bindE (getattr (base_vars self) ''_get_row_col'')
                              (\<lambda>f. Inl (TypeError ''object is not callable''))),
      d_channel = (\<lambda>path. bindE (getattr (base_vars self) ''_get_channel'')
                              (\<lambda>f. Inl (TypeError ''object is not callable'')))\<rparr>"

text \<open>
  The pattern of the default watcher,
  \<^verbatim>\<open>os.path.join(self.path, '{}_{}.tif'.format(self.next_tile[0], self.next_tile[1]))\<close>.
\<close>

definition next_tile_pattern :: "base_pipeline \<Rightarrow> string" where
  "next_tile_pattern self =
     os_path_join (bp_path self)
       (str_of_int (fst (bp_next_tile self)) @ ''_'' @ str_of_int (snd (bp_next_tile self)) @ ''.tif'')"

text \<open>
  \<^verbatim>\<open>baseRunningPipeline._is_new_tile_available\<close>, as the \<open>k\<close>-th scan of the run.
  It returns the pair \<^verbatim>\<open>(is_available, tile)\<close> and the pipeline, whose
  \<^verbatim>\<open>current_tile\<close> it sets when exactly one file matches.
\<close>

definition base_is_new_tile_available ::
  "'px io \<Rightarrow> decoder \<Rightarrow> nat \<Rightarrow> base_pipeline \<Rightarrow>
   py_error + ((bool \<times> 'px running_tile option) \<times> base_pipeline)" where
  "base_is_new_tile_available io dec k self =
     (let path = io_glob io k (next_tile_pattern self)
      in if path = [] then Inr ((False, None), self)
         else if length path = 1 then
           (let self1 = self\<lparr>bp_current_tile := Some (bp_next_tile self)\<rparr> in
            bindE (get_tile (d_row_col dec) (d_channel dec) (bp_type self1) (bp_path self1)
                     (bp_n_channels self1) (hd path))
              (\<lambda>tile. Inr ((True, Some tile), self1)))
         else Inl (TypeError ''Error: glob returned one than one file.''))"

text \<open>
  \<^verbatim>\<open>_update_next_tile\<close>. Its condition is
  \<^verbatim>\<open>self.current_tile[1] == self.n_col-1\<close>: the subscript of \<^verbatim>\<open>current_tile\<close>
  is evaluated first (\<^verbatim>\<open>None\<close> is not subscriptable), then the attribute
  \<^verbatim>\<open>n_col\<close> is read.
\<close>

definition update_next_tile :: "base_pipeline \<Rightarrow> py_error + base_pipeline" where
  "update_next_tile self =
     (case bp_current_tile self of
        None \<Rightarrow> Inl (TypeError ''NoneType object is not subscriptable'')
      | Some (row, col) \<Rightarrow>
          bindE (getattr (base_vars self) ''n_col'') (\<lambda>n_col.
          bindE (py_sub n_col (VInt 1)) (\<lambda>last_col.
            if py_eq (VInt col) last_col
            then Inr (self\<lparr>bp_next_tile := (row + 1, 0)\<rparr>)
            else Inr (self\<lparr>bp_next_tile := (row, col + 1)\<rparr>))))"

text \<open>
  \<^verbatim>\<open>_check_conversion\<close>: the local \<^verbatim>\<open>conversion_ok\<close> is set to
  \<^verbatim>\<open>False\<close> and nothing changes it before the test.
\<close>

definition check_conversion :: "'px io \<Rightarrow> 'px running_tile \<Rightarrow> string list \<Rightarrow> py_error + string list" where
  "check_conversion io tile removed =
     (let conversion_ok = False in
      if conversion_ok then erase_from_disk io tile removed else Inr removed)"

text \<open>
  The body of the loop of \<^verbatim>\<open>run\<close> for an available tile: load, convert and check
  when a converter is set, \<^verbatim>\<open>self._pre_stitch(tile)\<close> when stitching is on (the
  class has no such method: its definition is commented out), advance the cursor, count
  the tile. The \<^verbatim>\<open>print\<close> is left out.
\<close>

definition process_tile ::
  "'px io \<Rightarrow> base_pipeline \<Rightarrow> 'px running_tile \<Rightarrow> string list \<Rightarrow> py_error + base_pipeline \<times> string list" where
  "process_tile io self tile removed =
     bindE (load_tile io tile) (\<lambda>tile1.
     bindE (if bp_converter self
            then bindE (io_convert io tile1) (\<lambda>_. check_conversion io tile1 removed)
            else Inr removed) (\<lambda>removed1.
     bindE (if bp_stitcher self
            then bindE (getattr (base_vars self) ''_pre_stitch'') (\<lambda>_. Inr ())
            else Inr ()) (\<lambda>_.
     bindE (update_next_tile self) (\<lambda>self1.
       Inr (self1\<lparr>bp_tile_processed := bp_tile_processed self1 + 1\<rparr>, removed1)))))"

text \<open>
  \<^verbatim>\<open>baseRunningPipeline.run\<close>. The loop polls until every tile is counted, so it
  need not return: \<open>None\<close> is a run that polls forever, \<open>Some (Inl e)\<close> one that an
  exception ends, \<open>Some (Inr (self, removed))\<close> one that returns. \<open>k\<close> counts the scans
  (\<^verbatim>\<open>sleep(1)\<close> only lets time pass).
\<close>

partial_function (option) run ::
  "'px io \<Rightarrow> decoder \<Rightarrow> base_pipeline \<Rightarrow> nat \<Rightarrow> string list \<Rightarrow>
   (py_error + base_pipeline \<times> string list) option" where
  "run io dec self k removed =
     (if bp_tile_processed self < bp_n_tiles self then
        (case base_is_new_tile_available io dec k self of
           Inl e \<Rightarrow> Some (Inl e)
         | Inr ((is_available, tile), self1) \<Rightarrow>
             if is_available then
               (case tile of
                  None \<Rightarrow> Some (Inl (AttributeError ''path''))
                | Some t \<Rightarrow>
                    (case process_tile io self1 t removed of
                       Inl e \<Rightarrow> Some (Inl e)
                     | Inr (self2, removed2) \<Rightarrow> run io dec self2 (k + 1) removed2))
             else run io dec self1 (k + 1) removed)
      else Some (Inr (self, removed)))"

section \<open>The clearscope pipeline\<close>

definition newline :: char where
  "newline = CHR 0x0A"

text \<open>
  \<^verbatim>\<open>re.match('^(\w*) = (.*)$', l)\<close>: the key is the longest prefix of word
  characters (a shorter one would have to be followed by a space), then \<^verbatim>\<open> = \<close>,
  then the value up to the end of the line; \<^verbatim>\<open>.\<close> does not match a newline and
  \<^verbatim>\<open>$\<close> matches at the end of the string or before its final newline.
\<close>

definition match_setting :: "string \<Rightarrow> (string \<times> string) option" where
  "match_setting l =
     (let key = takeWhile is_word_char l;
          rest = dropWhile is_word_char l
      in if take 3 rest = '' = '' then
           (let v = takeWhile (\<lambda>c. c \<noteq> newline) (drop 3 rest);
                tail = dropWhile (\<lambda>c. c \<noteq> newline) (drop 3 rest)
            in if tail = [] \<or> tail = [newline] then Some (key, v) else None)
         else None)"

definition isnumeric :: "string \<Rightarrow> bool" where
  "isnumeric s = (s \<noteq> [] \<and> list_all is_numeric_char s)"

text \<open>
  \<^verbatim>\<open>float(v)\<close> on a string that \<^verbatim>\<open>isnumeric\<close> accepts: the double nearest to
  the number the decimal digits spell (an infinity for a number too large), and
  \<^verbatim>\<open>ValueError\<close> when one of the characters is not a decimal digit.
\<close>

definition float_of_numeric :: "string \<Rightarrow> py_error + pyfloat" where
  "float_of_numeric v =
     (if list_all is_digit v then Inr (fl (of_int (int_of_digits v)))
      else Inl (ValueError ''could not convert string to float''))"

text \<open>A dictionary keeps its keys in insertion order; assigning to a key replaces its value.\<close>

fun dict_set :: "string \<Rightarrow> setting \<Rightarrow> (string \<times> setting) list \<Rightarrow> (string \<times> setting) list" where
  "dict_set k v [] = [(k, v)]"
| "dict_set k v ((k', v') # d) = (if k' = k then (k, v) # d else (k', v') # dict_set k v d)"

definition getitem :: "(string \<times> setting) list \<Rightarrow> string \<Rightarrow> py_error + setting" where
  "getitem d k = (case map_of d k of None \<Rightarrow> Inl (KeyError k) | Some v \<Rightarrow> Inr v)"

text \<open>One round of the loop over the lines of the settings file.\<close>

definition parse_line :: "(string \<times> setting) list \<Rightarrow> string \<Rightarrow> py_error + (string \<times> setting) list" where
  "parse_line acq_param l =
     (case match_setting l of
        None \<Rightarrow> Inr acq_param
      | Some (key, v) \<Rightarrow>
          if isnumeric v
          then bindE (float_of_numeric v) (\<lambda>x. Inr (dict_set key (SFloat x) acq_param))
          else if v = ''True'' then Inr (dict_set key (SBool True) acq_param)
          else if v = ''False'' then Inr (dict_set key (SBool False) acq_param)
          else Inr (dict_set key (SStr v) acq_param))"

text \<open>The loop: it ends at the first line that raises.\<close>

fun parse_lines :: "(string \<times> setting) list \<Rightarrow> string list \<Rightarrow> py_error + (string \<times> setting) list" where
  "parse_lines acq_param [] = Inr acq_param"
| "parse_lines acq_param (l # ls) = bindE (parse_line acq_param l) (\<lambda>acq_param. parse_lines acq_param ls)"

text \<open>
  The two patterns of \<^verbatim>\<open>_parse_acquisition_settings\<close>: the first scan uses
  \<^verbatim>\<open>os.path.join(self.path, '*_AcquireSettings.txt')\<close>, the scan inside the
  waiting loop \<^verbatim>\<open>os.path.join(self.path, '0001', '*_AcquireSettings.txt')\<close>.
\<close>

definition settings_pattern :: "string \<Rightarrow> string" where
  "settings_pattern self_path = os_path_join self_path ''*_AcquireSettings.txt''"

definition retry_pattern :: "string \<Rightarrow> string" where
  "retry_pattern self_path = os_path_join (os_path_join self_path ''0001'') ''*_AcquireSettings.txt''"

text \<open>
  \<^verbatim>\<open>while files == []: sleep(1); files = glob(...)\<close>, entered with the answer of
  scan \<open>k\<close>. \<open>None\<close> is a loop that never ends.
\<close>

partial_function (option) wait_for_settings ::
  "'px io \<Rightarrow> string \<Rightarrow> nat \<Rightarrow> string list \<Rightarrow> string list option" where
  "wait_for_settings io self_path k files =
     (if files = []
      then wait_for_settings io self_path (k + 1) (io_glob io (k + 1) (retry_pattern self_path))
      else Some files)"

text \<open>
  \<^verbatim>\<open>_parse_acquisition_settings\<close>, with \<^verbatim>\<open>self.path\<close> as its argument; it
  returns the dictionary it stores in \<^verbatim>\<open>self.acq_param\<close> and the pair
  \<^verbatim>\<open>(nrow, ncol)\<close>.
\<close>

definition parse_acquisition_settings ::
  "'px io \<Rightarrow> string \<Rightarrow> (py_error + (string \<times> setting) list \<times> setting \<times> setting) option" where
  "parse_acquisition_settings io self_path =
     (case wait_for_settings io self_path 0 (io_glob io 0 (settings_pattern self_path)) of
        None \<Rightarrow> None
      | Some files \<Rightarrow>
          Some (bindE (io_readlines io (hd files)) (\<lambda>lines.
                bindE (parse_lines [] lines) (\<lambda>acq_param.
                bindE (getitem acq_param ''ScanGridY'') (\<lambda>nrow.
                bindE (getitem acq_param ''ScanGridY'') (\<lambda>ncol.
                bindE (getitem acq_param ''StackDepths'') (\<lambda>n_planes.
                  Inr (acq_param, nrow, ncol))))))))"

text \<open>
  \<^verbatim>\<open>self.nrow * self.ncol\<close> on two settings values: floats and booleans
  multiply as numbers (two booleans give an integer), a string is repeated by a
  boolean, and a string times a string or a float raises \<^verbatim>\<open>TypeError\<close>.
\<close>

fun setting_mul :: "setting \<Rightarrow> setting \<Rightarrow> py_error + pyval" where
  "setting_mul (SFloat x) (SFloat y) = Inr (VFloat (fmul x y))"
| "setting_mul (SFloat x) (SBool b) = Inr (VFloat (fmul x (Finite (if b then 1 else 0))))"
| "setting_mul (SBool a) (SFloat y) = Inr (VFloat (fmul (Finite (if a then 1 else 0)) y))"
| "setting_mul (SBool a) (SBool b) = Inr (VInt ((if a then 1 else 0) * (if b then 1 else 0)))"
| "setting_mul (SStr s) (SBool b) = Inr (VStr (if b then s else []))"
| "setting_mul (SBool a) (SStr s) = Inr (VStr (if a then s else []))"
| "setting_mul (SStr s) (SFloat y) = Inl (TypeError ''can not multiply sequence by non-int of type float'')"
| "setting_mul (SFloat x) (SStr s) = Inl (TypeError ''can not multiply sequence by non-int of type float'')"
| "setting_mul (SStr s) (SStr t) = Inl (TypeError ''can not multiply sequence by non-int of type str'')"

text \<open>
  \<^verbatim>\<open>clearscopeRunningPipeline\<close>: its constructor does not call the constructor of
  the base class, so it has its own attributes (no \<^verbatim>\<open>next_tile\<close>, no
  \<^verbatim>\<open>current_tile\<close>); the grid sizes are settings values.
\<close>

record clearscope_pipeline =
  cs_path :: string
  cs_acq_param :: "(string \<times> setting) list option"
  cs_nrow :: setting
  cs_ncol :: setting
  cs_frame_size :: int
  cs_tile_processed :: int
  cs_n_tiles :: pyval
  cs_type :: string
  cs_n_channels :: int
  cs_buffer_tile_to_be_processed :: "string list"
  cs_converter :: bool
  cs_lazy_loading :: "bool option"
  cs_compression :: bool
  cs_bg :: "int option"
  cs_quantization_factor :: "int option"
  cs_folder_apr :: "string option"
  cs_stitcher :: bool
  cs_overlap_h :: "pyfloat option"
  cs_overlap_v :: "pyfloat option"
  cs_n_vertex :: "int option"
  cs_folder_max_projs :: "string option"

text \<open>\<^verbatim>\<open>clearscopeRunningPipeline.__init__(path, n_channels)\<close>.\<close>

definition clearscope_init :: "'px io \<Rightarrow> string \<Rightarrow> int \<Rightarrow> (py_error + clearscope_pipeline) option" where
  "clearscope_init io path n_channels =
     (let self_path = os_path_join path ''0001'' in
      case parse_acquisition_settings io self_path of
        None \<Rightarrow> None
      | Some r \<Rightarrow>
          Some (bindE r (\<lambda>(acq_param, nrow, ncol).
                bindE (setting_mul nrow ncol) (\<lambda>n_tiles.
                  Inr \<lparr>cs_path = self_path, cs_acq_param = Some acq_param,
                       cs_nrow = nrow, cs_ncol = ncol, cs_frame_size = 2048,
                       cs_tile_processed = 0, cs_n_tiles = n_tiles, cs_type = ''clearscope'',
                       cs_n_channels = n_channels, cs_buffer_tile_to_be_processed = [],
                       cs_converter = False, cs_lazy_loading = None, cs_compression = False,
                       cs_bg = None, cs_quantization_factor = None, cs_folder_apr = None,
                       cs_stitcher = False, cs_overlap_h = None, cs_overlap_v = None,
                       cs_n_vertex = None, cs_folder_max_projs = None\<rparr>))))"

text \<open>
  \<^verbatim>\<open>clearscopeRunningPipeline._is_new_tile_available\<close>, as the \<open>k\<close>-th scan. The
  result is \<open>Some\<close> of the pair \<^verbatim>\<open>(is_available, tile)\<close>, or \<open>None\<close> where the
  function reaches its end without a \<^verbatim>\<open>return\<close> and so returns Python's
  \<^verbatim>\<open>None\<close>.
\<close>

definition clearscope_is_new_tile_available ::
  "'px io \<Rightarrow> nat \<Rightarrow> clearscope_pipeline \<Rightarrow>
   py_error + ((bool \<times> 'px running_tile option) option \<times> clearscope_pipeline)" where
  "clearscope_is_new_tile_available io k self =
     (let paths = io_glob io k (os_path_join (cs_path self) ''000000_*_*c/'');
          self1 = self\<lparr>cs_buffer_tile_to_be_processed := cs_buffer_tile_to_be_processed self @ paths\<rparr>
      in if cs_buffer_tile_to_be_processed self1 = [] then Inr (Some (False, None), self1)
         else if 1 \<le> length paths then
           bindE (get_tile (get_row_col (cs_ncol self1)) (\<lambda>p. Inr (get_channel p))
                    (cs_type self1) (cs_path self1) (cs_n_channels self1) (hd paths))
             (\<lambda>tile. Inr (Some (True, Some tile), self1))
         else Inr (None, self1))"

section \<open>Acquisitions used as examples\<close>

text \<open>
  A folder in which every tile file is already there: each pattern without a wildcard
  matches the one file it names. The decoder reads every name as tile \<open>(0, 0)\<close>.
\<close>

definition every_tile_present :: "unit io" where
  "every_tile_present =
     \<lparr>io_glob = (\<lambda>k pattern. [pattern]),
      io_read = (\<lambda>ftype path. Inr ()),
      io_remove = (\<lambda>path. Inr ()),
      io_convert = (\<lambda>tile. Inr ()),
      io_readlines = (\<lambda>path. Inr [])\<rparr>"

definition name_decoder :: decoder where
  "name_decoder = \<lparr>d_row_col = (\<lambda>path. Inr (0, 0)), d_channel = (\<lambda>path. Inr None)\<rparr>"

text \<open>
  The acquisition folder \<^verbatim>\<open>/data\<close> of a default pipeline: the first scan for
  \<^verbatim>\<open>/data/0_0.tif\<close> finds nothing, every later one finds the file; no other
  pattern matches anything.
\<close>

definition one_tile_folder :: "unit io" where
  "one_tile_folder =
     \<lparr>io_glob = (\<lambda>k pattern.
        if pattern = ''/data/0_0.tif'' \<and> 1 \<le> k then [''/data/0_0.tif''] else []),
      io_read = (\<lambda>ftype path. Inr ()),
      io_remove = (\<lambda>path. Inr ()),
      io_convert = (\<lambda>tile. Inr ()),
      io_readlines = (\<lambda>path. Inr [])\<rparr>"

text \<open>
  An acquisition folder given with a wildcard, \<^verbatim>\<open>/data/*\<close>: the pattern
  \<^verbatim>\<open>/data/*/0_0.tif\<close> finds the tile in two folders.
\<close>

definition wildcard_folder :: "unit io" where
  "wildcard_folder =
     \<lparr>io_glob = (\<lambda>k pattern.
        if pattern = ''/data/*/0_0.tif'' then [''/data/a/0_0.tif'', ''/data/b/0_0.tif''] else []),
      io_read = (\<lambda>ftype path. Inr ()),
      io_remove = (\<lambda>path. Inr ()),
      io_convert = (\<lambda>tile. Inr ()),
      io_readlines = (\<lambda>path. Inr [])\<rparr>"

text \<open>
  A clearscope acquisition under \<^verbatim>\<open>/data\<close> whose settings file declares a grid of
  3 by 5. The tile scans see: nothing; the folder of index 1; the same again; the folder
  of index 2 listed before that of index 1; a folder \<^verbatim>\<open>000000_tmp_1c\<close>, which
  the pattern of \<^verbatim>\<open>glob\<close> accepts and the regular expression does not; nothing.
\<close>

definition acquisition :: "unit io" where
  "acquisition =
     \<lparr>io_glob = (\<lambda>k pattern.
        if pattern = ''/data/0001/*_AcquireSettings.txt'' then [''/data/0001/scan_AcquireSettings.txt'']
        else if pattern = ''/data/0001/000000_*_*c/'' then
          (if k = 0 then []
           else if k = 1 then [''/data/0001/000000_000001___1c/'']
           else if k = 2 then [''/data/0001/000000_000001___1c/'']
           else if k = 3 then [''/data/0001/000000_000002___1c/'', ''/data/0001/000000_000001___1c/'']
           else if k = 4 then [''/data/0001/000000_tmp_1c/'']
           else [])
        else []),
      io_read = (\<lambda>ftype path. Inr ()),
      io_remove = (\<lambda>path. Inr ()),
      io_convert = (\<lambda>tile. Inr ()),
      io_readlines = (\<lambda>path.
        if path = ''/data/0001/scan_AcquireSettings.txt''
        then Inr [''ScanGridX = 3'' @ [newline], ''ScanGridY = 5'' @ [newline],
                  ''StackDepths = 100'' @ [newline]]
        else Inl (OSError ''No such file or directory''))\<rparr>"

text \<open>The pipeline the constructor builds on that acquisition.\<close>

definition acquired :: clearscope_pipeline where
  "acquired =
     \<lparr>cs_path = ''/data/0001'',
      cs_acq_param = Some [(''ScanGridX'', SFloat (Finite 3)), (''ScanGridY'', SFloat (Finite 5)),
                           (''StackDepths'', SFloat (Finite 100))],
      cs_nrow = SFloat (Finite 5), cs_ncol = SFloat (Finite 5), cs_frame_size = 2048,
      cs_tile_processed = 0, cs_n_tiles = VFloat (Finite 25), cs_type = ''clearscope'',
      cs_n_channels = 1, cs_buffer_tile_to_be_processed = [],
      cs_converter = False, cs_lazy_loading = None, cs_compression = False,
      cs_bg = None, cs_quantization_factor = None, cs_folder_apr = None,
      cs_stitcher = False, cs_overlap_h = None, cs_overlap_v = None,
      cs_n_vertex = None, cs_folder_max_projs = None\<rparr>"

text \<open>
  An acquisition whose settings file is written to \<^verbatim>\<open>/data/0001\<close> after the first
  scan, and never to \<^verbatim>\<open>/data/0001/0001\<close>.
\<close>

definition late_settings :: "unit io" where
  "late_settings =
     \<lparr>io_glob = (\<lambda>k pattern.
        if pattern = ''/data/0001/*_AcquireSettings.txt'' \<and> 1 \<le> k
        then [''/data/0001/scan_AcquireSettings.txt'']
        else []),
      io_read = (\<lambda>ftype path. Inr ()),
      io_remove = (\<lambda>path. Inr ()),
      io_convert = (\<lambda>tile. Inr ()),
      io_readlines = (\<lambda>path.
        Inr [''ScanGridX = 3'' @ [newline], ''ScanGridY = 5'' @ [newline],
             ''StackDepths = 100'' @ [newline]])\<rparr>"

text \<open>
  A clearscope acquisition whose settings file gives \<^verbatim>\<open>ScanGridY\<close> the value
  \<^verbatim>\<open>True\<close>.
\<close>

definition boolean_grid :: "unit io" where
  "boolean_grid =
     \<lparr>io_glob = (\<lambda>k pattern.
        if pattern = ''/data/0001/*_AcquireSettings.txt''
        then [''/data/0001/scan_AcquireSettings.txt'']
        else []),
      io_read = (\<lambda>ftype path. Inr ()),
      io_remove = (\<lambda>path. Inr ()),
      io_convert = (\<lambda>tile. Inr ()),
      io_readlines = (\<lambda>path.
        if path = ''/data/0001/scan_AcquireSettings.txt''
        then Inr [''ScanGridX = 3'' @ [newline], ''ScanGridY = True'' @ [newline],
                  ''StackDepths = 100'' @ [newline]]
        else Inl (OSError ''No such file or directory''))\<rparr>"

section \<open>Properties of double-precision arithmetic\<close>

lemma ilog2_ge1:
  assumes "1 \<le> a"
  shows "2 powi (ilog2 a) \<le> a" "a < 2 powi (ilog2 a + 1)"
proof -
  let ?k = "\<lfloor>a\<rfloor>"
  have k: "1 \<le> ?k" using assms by simp
  then have b: "2 ^ nat (bitlen ?k - 1) \<le> ?k" "?k < 2 ^ nat (bitlen ?k)"
    using bitlen_bounds [of ?k] by simp_all
  have B: "1 \<le> bitlen ?k"
    using b(2) k by (smt (verit) bitlen_nonneg nat_0_iff power_0 zero_less_one)
  have il: "ilog2 a = bitlen ?k - 1" using assms by (simp add: ilog2_def)
  have "(2::rat) powi (bitlen ?k - 1) = of_int (2 ^ nat (bitlen ?k - 1))"
    using B by (simp add: power_int_def)
  also have "\<dots> \<le> of_int ?k" using b(1) by (simp only: of_int_le_iff)
  also have "\<dots> \<le> a" by simp
  finally show "2 powi (ilog2 a) \<le> a" unfolding il .
  have "a < of_int (?k + 1)" by linarith
  also have "\<dots> \<le> of_int (2 ^ nat (bitlen ?k))"
    using b(2) by (simp only: of_int_le_iff)
  also have "\<dots> = (2::rat) powi (bitlen ?k)"
    using B by (simp add: power_int_def)
  finally show "a < 2 powi (ilog2 a + 1)" unfolding il by simp
qed

lemma ilog2_lt1:
  assumes "0 < a" "a < 1"
  shows "2 powi (ilog2 a) \<le> a" "a < 2 powi (ilog2 a + 1)"
proof -
  let ?t = "\<lceil>1 / a\<rceil>"
  have inv: "1 < 1 / a" using assms by simp
  then have t: "2 \<le> ?t" by linarith
  then have b: "2 ^ nat (bitlen (?t - 1) - 1) \<le> ?t - 1" "?t - 1 < 2 ^ nat (bitlen (?t - 1))"
    using bitlen_bounds [of "?t - 1"] by simp_all
  let ?M = "bitlen (?t - 1)"
  have M: "1 \<le> ?M"
    using b(2) t by (smt (verit) bitlen_nonneg nat_0_iff power_0)
  have il: "ilog2 a = - ?M" using assms by (simp add: ilog2_def)
  have "1 / a \<le> of_int ?t" by simp
  also have "\<dots> \<le> of_int (2 ^ nat ?M)"
    using b(2) by (simp only: of_int_le_iff)
  finally have up: "1 / a \<le> 2 ^ nat ?M" by simp
  have "(2::rat) powi (- ?M) = 1 / 2 ^ nat ?M"
    using M by (simp add: power_int_def field_simps)
  also have "\<dots> \<le> a"
    using up assms by (simp add: field_simps)
  finally show "2 powi (ilog2 a) \<le> a" unfolding il .
  have "of_int (2 ^ nat (?M - 1)) \<le> (of_int (?t - 1) :: rat)"
    using b(1) by (simp only: of_int_le_iff)
  also have "\<dots> < 1 / a" by linarith
  finally have lo: "2 ^ nat (?M - 1) < 1 / a" by simp
  have "a < 1 / 2 ^ nat (?M - 1)"
    using lo assms by (simp add: field_simps)
  also have "\<dots> = (2::rat) powi (- ?M + 1)"
    using M by (simp add: power_int_def field_simps nat_diff_distrib)
  finally show "a < 2 powi (ilog2 a + 1)" unfolding il .
qed

lemma ilog2_bounds:
  assumes "0 < a"
  shows "2 powi (ilog2 a) \<le> a" "a < 2 powi (ilog2 a + 1)"
  using assms ilog2_ge1 [of a] ilog2_lt1 [of a] by (cases "1 \<le> a"; simp)+

lemma pow2_less_D: "(2::rat) powi m < 2 powi n \<Longrightarrow> m < n"
  using power_int_increasing [of n m "2::rat"] by (cases "m < n") auto

lemma round_half_even_int: "round_half_even (of_int k) = k"
  by (simp add: round_half_even_def)

lemma round_half_even_close: "\<bar>of_int (round_half_even y) - y\<bar> \<le> 1 / 2"
proof -
  have "of_int \<lfloor>y\<rfloor> \<le> y" "y < of_int \<lfloor>y\<rfloor> + 1" by linarith+
  then show ?thesis
    unfolding round_half_even_def Let_def by (auto simp: abs_le_iff)
qed

text \<open>A dyadic number with a mantissa below \<open>2^53\<close> is a double.\<close>

lemma round_double_exact:
  assumes "\<bar>k\<bar> < 2 ^ 53" "- 1074 \<le> j"
  shows "round_double (of_int k * 2 powi j) = of_int k * 2 powi j"
proof (cases "k = 0")
  case True
  then show ?thesis by (simp add: round_double_def)
next
  case False
  define x :: rat where "x = of_int k * 2 powi j"
  define e where "e = max (ilog2 \<bar>x\<bar> - 52) (- 1074)"
  have p: "(0::rat) < 2 powi i" for i by simp
  have xa: "\<bar>x\<bar> = of_int \<bar>k\<bar> * 2 powi j" by (simp add: x_def abs_mult)
  have apos: "0 < \<bar>x\<bar>" using False by (simp add: x_def)
  have "2 powi (ilog2 \<bar>x\<bar>) \<le> \<bar>x\<bar>" using ilog2_bounds(1) [OF apos] .
  also have "\<bar>x\<bar> < 2 ^ 53 * 2 powi j"
  proof -
    have "(of_int \<bar>k\<bar> :: rat) < of_int (2 ^ 53)" using assms(1) by (simp only: of_int_less_iff)
    then show ?thesis unfolding xa using p [of j] by simp
  qed
  also have "\<dots> = 2 powi (53 + j)" by (simp add: power_int_add)
  finally have "ilog2 \<bar>x\<bar> < 53 + j" by (rule pow2_less_D)
  then have "e \<le> j" using assms(2) by (simp add: e_def)
  then obtain d where d: "j = e + int d"
    by (metis zle_iff_zadd)
  have pj: "(2::rat) powi j = 2 ^ d * 2 powi e"
    unfolding d by (simp add: power_int_add)
  have "\<bar>x\<bar> / 2 powi e = of_int (\<bar>k\<bar> * 2 ^ d)"
    unfolding xa pj by simp
  then have m: "round_half_even (\<bar>x\<bar> / 2 powi e) = \<bar>k\<bar> * 2 ^ d"
    by (simp only: round_half_even_int)
  have "of_int (\<bar>k\<bar> * 2 ^ d) * (2::rat) powi e = \<bar>x\<bar>"
    unfolding xa pj by simp
  then have "sgn x * of_int (round_half_even (\<bar>x\<bar> / 2 powi e)) * 2 powi e = sgn x * \<bar>x\<bar>"
    unfolding m by (simp add: mult.assoc)
  also have "\<dots> = x" by (simp add: sgn_mult_abs)
  finally have "round_double x = x"
    using apos by (simp add: round_double_def Let_def e_def)
  then show ?thesis by (simp add: x_def)
qed

lemma fl_int:
  assumes "\<bar>k\<bar> < 2 ^ 53"
  shows "fl (of_int k) = Finite (of_int k)"
proof -
  have r: "round_double (of_int k) = of_int k"
    using round_double_exact [OF assms, of 0] by simp
  have "(of_int \<bar>k\<bar> :: rat) < of_int (2 ^ 53)" using assms by (simp only: of_int_less_iff)
  then have "\<bar>of_int k :: rat\<bar> < 2 ^ 1024" by simp
  then show ?thesis by (simp add: fl_def r)
qed

lemma fl_half:
  assumes "\<bar>k\<bar> < 2 ^ 53"
  shows "fl (of_int k / 2) = Finite (of_int k / 2)"
proof -
  have r: "round_double (of_int k / 2) = of_int k / 2"
    using round_double_exact [OF assms, of "- 1"] by (simp add: power_int_def)
  have "(of_int \<bar>k\<bar> :: rat) < of_int (2 ^ 53)" using assms by (simp only: of_int_less_iff)
  then have "\<bar>of_int k / 2 :: rat\<bar> < 2 ^ 1024" by simp
  then show ?thesis by (simp add: fl_def r)
qed

text \<open>Away from the subnormal range, rounding moves a number by at most \<open>2^-53\<close> of itself.\<close>

lemma round_double_error:
  assumes "2 powi (- 1022) \<le> a"
  shows "\<bar>round_double a - a\<bar> \<le> a / 2 ^ 53"
proof -
  have "(0::rat) < 2 powi (- 1022)" by simp
  with assms have apos: "0 < a" by linarith
  let ?L = "ilog2 a"
  have "(2::rat) powi (- 1022) \<le> a" by fact
  also have "a < 2 powi (?L + 1)" using ilog2_bounds(2) [OF apos] .
  finally have "- 1022 < ?L + 1" by (rule pow2_less_D)
  then have e: "max (?L - 52) (- 1074) = ?L - 52" by simp
  let ?q = "(2::rat) powi (?L - 52)"
  have q: "0 < ?q" by simp
  have rd: "round_double a = of_int (round_half_even (a / ?q)) * ?q"
    using apos by (simp add: round_double_def Let_def e)
  have "\<bar>round_double a - a\<bar> = \<bar>of_int (round_half_even (a / ?q)) - a / ?q\<bar> * ?q"
  proof -
    have "round_double a - a = (of_int (round_half_even (a / ?q)) - a / ?q) * ?q"
      unfolding rd using q by (simp add: field_simps)
    then show ?thesis using q by (simp add: abs_mult)
  qed
  also have "\<dots> \<le> (1 / 2) * ?q"
    using round_half_even_close [of "a / ?q"] q by (intro mult_right_mono) simp_all
  also have "\<dots> = 2 powi ?L / 2 ^ 53"
    by (simp add: power_int_diff)
  also have "\<dots> \<le> a / 2 ^ 53"
    using ilog2_bounds(1) [OF apos] by (simp add: divide_right_mono)
  finally show ?thesis .
qed

lemma fsub_int:
  assumes "\<bar>a - b\<bar> < 2 ^ 53"
  shows "fsub (Finite (of_int a)) (Finite (of_int b)) = Finite (of_int (a - b))"
  using fl_int [OF assms] by (simp add: fsub_def)

lemma np_mod_int:
  assumes "0 < b" "b < 2 ^ 53"
  shows "np_mod (Finite (of_int a)) (Finite (of_int b)) = Finite (of_int (a mod b))"
proof -
  have m: "0 \<le> a mod b" "a mod b < b" using assms by simp_all
  then have "\<bar>a mod b\<bar> < 2 ^ 53" using assms by linarith
  then have ex: "fl (of_int (a mod b)) = Finite (of_int (a mod b))"
    by (rule fl_int)
  have bpos: "(0::rat) < of_int b" using assms by simp
  show ?thesis
  proof (cases "0 \<le> a")
    case True
    then have "(0::rat) \<le> of_int a / of_int b" using bpos by simp
    then have "trunc (of_int a / of_int b) = a div b"
      by (simp add: trunc_def floor_divide_of_int_eq)
    then have "(of_int a :: rat) - of_int b * of_int (trunc (of_int a / of_int b)) = of_int (a mod b)"
      by (simp add: minus_mult_div_eq_mod flip: of_int_mult of_int_diff)
    then show ?thesis using assms m by simp
  next
    case False
    then have neg: "(of_int a :: rat) / of_int b < 0" using bpos by (simp add: divide_neg_pos)
    then have t: "trunc (of_int a / of_int b) = - ((- a) div b)"
      by (simp add: trunc_def ceiling_divide_eq_div)
    have r: "(of_int a :: rat) - of_int b * of_int (trunc (of_int a / of_int b))
              = of_int (- ((- a) mod b))"
    proof -
      have "a - b * (- ((- a) div b)) = - ((- a) mod b)"
        by (simp add: algebra_simps) (metis minus_mult_div_eq_mod add.commute diff_minus_eq_add minus_diff_eq mult.commute)
      then show ?thesis unfolding t by (simp only: flip: of_int_mult of_int_diff)
    qed
    show ?thesis
    proof (cases "(- a) mod b = 0")
      case True
      then have "a mod b = 0" by (metis dvd_minus_iff mod_eq_0_iff_dvd)
      with True r assms show ?thesis by simp
    next
      case nz: False
      have pos: "0 < (- a) mod b" using nz assms
        by (metis Euclidean_Rings.pos_mod_sign order_le_less)
      have "a mod b = b - (- a) mod b"
        using nz by (metis zmod_zminus1_eq_if minus_minus)
      then have "(of_int (- ((- a) mod b)) :: rat) + of_int b = of_int (a mod b)"
        by simp
      with r pos assms ex show ?thesis by simp
    qed
  qed
qed

lemma ceiling_round_quotient:
  assumes "1 \<le> n" "n < 2 ^ 53" "1 \<le> c" "c < 2 ^ 53"
  shows "\<lceil>round_double (of_int n / of_int c)\<rceil> = (n - 1) div c + 1"
    and "\<bar>round_double (of_int n / of_int c)\<bar> < 2 ^ 1024"
proof -
  let ?x = "(of_int n :: rat) / of_int c"
  let ?q = "(n - 1) div c" and ?r = "(n - 1) mod c"
  have cpos: "(0::rat) < of_int c" using assms by simp
  have n: "n = ?q * c + ?r + 1" by simp
  have r: "0 \<le> ?r" "?r < c" using assms by simp_all
  have q0: "0 \<le> ?q" using assms by (simp add: pos_imp_zdiv_nonneg_iff)
  have qn: "?q + 1 \<le> n"
  proof -
    have "?q * 1 \<le> ?q * c" using q0 assms by (intro mult_left_mono) simp_all
    with n r show ?thesis by linarith
  qed
  have bounds: "of_int ?q < round_double ?x \<and> round_double ?x \<le> of_int (?q + 1)"
  proof (cases "?r = c - 1")
    case True
    with n have "n = (?q + 1) * c" by (simp add: algebra_simps)
    then have "(of_int n :: rat) = of_int (?q + 1) * of_int c"
      by (metis of_int_mult)
    then have x: "?x = of_int (?q + 1)" using cpos by simp
    have "\<bar>?q + 1\<bar> < 2 ^ 53" using q0 qn assms by simp
    from round_double_exact [OF this, of 0] have "round_double ?x = of_int (?q + 1)"
      unfolding x by simp
    then show ?thesis by simp
  next
    case False
    then have r2: "?r + 2 \<le> c" using r by simp
    have lo: "of_int ?q + 1 / of_int c \<le> ?x"
    proof -
      have "?q * c + 1 \<le> n" using n r by linarith
      then have "(of_int (?q * c + 1) :: rat) \<le> of_int n" by (simp only: of_int_le_iff)
      then have "(of_int ?q * of_int c + 1) / of_int c \<le> ?x"
        using cpos by (intro divide_right_mono) simp_all
      moreover have "(of_int ?q * of_int c + 1) / of_int c = of_int ?q + 1 / (of_int c :: rat)"
        using cpos by (simp add: add_divide_distrib)
      ultimately show ?thesis by simp
    qed
    have hi: "?x \<le> of_int (?q + 1) - 1 / of_int c"
    proof -
      have "(?q + 1) * c = ?q * c + c" by (simp add: algebra_simps)
      then have "n \<le> (?q + 1) * c - 1" using n r2 by linarith
      then have "(of_int n :: rat) \<le> of_int ((?q + 1) * c - 1)" by (simp only: of_int_le_iff)
      then have "?x \<le> (of_int (?q + 1) * of_int c - 1) / of_int c"
        using cpos by (intro divide_right_mono) simp_all
      moreover have "(of_int (?q + 1) * of_int c - 1) / of_int c = of_int (?q + 1) - 1 / (of_int c :: rat)"
        using cpos by (simp add: diff_divide_distrib)
      ultimately show ?thesis by simp
    qed
    have xpos: "1 / of_int c \<le> ?x"
      using assms(1) cpos by (simp add: divide_right_mono)
    have "(of_int c :: rat) \<le> of_int (2 ^ 53)" using assms by (simp only: of_int_le_iff)
    then have "(of_int c :: rat) \<le> 2 powi 53" by simp
    then have "(2::rat) powi (- 53) \<le> 1 / of_int c"
      using cpos by (simp add: power_int_minus field_simps)
    moreover have "(2::rat) powi (- 1022) \<le> 2 powi (- 53)"
      by (intro power_int_increasing) simp_all
    ultimately have "2 powi (- 1022) \<le> ?x" using xpos by linarith
    then have err: "\<bar>round_double ?x - ?x\<bar> \<le> ?x / 2 ^ 53"
      by (rule round_double_error)
    have "(of_int n :: rat) < of_int (2 ^ 53)" using assms by (simp only: of_int_less_iff)
    then have "?x / 2 ^ 53 < 1 / of_int c"
      using cpos by (simp add: field_simps)
    with err have "\<bar>round_double ?x - ?x\<bar> < 1 / of_int c" by linarith
    with lo hi show ?thesis by (simp add: abs_less_iff)
  qed
  then show "\<lceil>round_double ?x\<rceil> = ?q + 1"
    by (intro ceiling_unique) simp_all
  have "(of_int (?q + 1) :: rat) \<le> of_int n" using qn by (simp only: of_int_le_iff)
  moreover have "(of_int n :: rat) < of_int (2 ^ 53)" using assms by (simp only: of_int_less_iff)
  moreover have "(2::rat) ^ 53 < 2 ^ 1024" by simp
  moreover have "(0::rat) \<le> of_int ?q" using q0 by simp
  ultimately show "\<bar>round_double ?x\<bar> < 2 ^ 1024"
    using bounds by (simp add: abs_less_iff)
qed

section \<open>Properties of the decoder\<close>

lemma shifted_mod:
  assumes "0 < (c::int)"
  shows "(n - c - 1) mod (2 * c) =
           (if even ((n - 1) div c) then c + (n - 1) mod c else (n - 1) mod c)"
proof -
  let ?q = "(n - 1) div c" and ?r = "(n - 1) mod c"
  have n: "n - 1 = ?q * c + ?r" by simp
  have r: "0 \<le> ?r" "?r < c" using assms by simp_all
  show ?thesis
  proof (cases "even ?q")
    case True
    then obtain k where k: "?q = 2 * k" by (auto elim: evenE)
    have "n - c - 1 = (2 * c) * (k - 1) + (c + ?r)"
      using n k by (simp add: algebra_simps)
    moreover have "0 \<le> c + ?r" "c + ?r < 2 * c" using r assms by simp_all
    ultimately have "(n - c - 1) mod (2 * c) = c + ?r"
      by (metis mod_pos_pos_trivial mod_mult_self4)
    with True show ?thesis by simp
  next
    case False
    then obtain k where k: "?q = 2 * k + 1" by (auto elim: oddE)
    have "n - c - 1 = (2 * c) * k + ?r"
      using n k by (simp add: algebra_simps)
    moreover have "0 \<le> ?r" "?r < 2 * c" using r assms by linarith+
    ultimately have "(n - c - 1) mod (2 * c) = ?r"
      by (metis mod_pos_pos_trivial mod_mult_self4)
    with False show ?thesis by simp
  qed
qed

lemma row_col_of_index_serpentine:
  assumes "1 \<le> c" "c < 2 ^ 51" "1 \<le> n" "n < 2 ^ 51"
  shows "row_col_of_index (Finite (of_int c)) n = Inr (serpentine c n)"
proof -
  let ?q = "(n - 1) div c" and ?r = "(n - 1) mod c"
  let ?m = "(n - c - 1) mod (2 * c)"
  let ?k = "if even ?q then ?r else c - 1 - ?r"
  have r: "0 \<le> ?r" "?r < c" using assms by simp_all
  have m: "0 \<le> ?m" "?m < 2 * c" using assms by simp_all
  have fn: "float_of_int n = Inr (Finite (of_int n))"
    using assms by (simp add: float_of_int_def fl_int)
  have s1: "fsub (Finite (of_int n)) (Finite (of_int c)) = Finite (of_int (n - c))"
    using assms by (intro fsub_int) simp
  have s2: "fsub (Finite (of_int (n - c))) (Finite 1) = Finite (of_int (n - c - 1))"
    using assms fsub_int [of "n - c" 1] by simp
  have d: "fmul (Finite 2) (Finite (of_int c)) = Finite (of_int (2 * c))"
    using assms fl_int [of "2 * c"] by simp
  have md: "np_mod (Finite (of_int (n - c - 1))) (Finite (of_int (2 * c))) = Finite (of_int ?m)"
    using assms by (intro np_mod_int) simp_all
  have s3: "fsub (Finite (of_int ?m)) (Finite (of_int c)) = Finite (of_int (?m - c))"
    using assms m by (intro fsub_int) simp
  have h: "fadd (Finite (of_int (?m - c))) (Finite (1 / 2)) = Finite (of_int (2 * (?m - c) + 1) / 2)"
  proof -
    have "\<bar>2 * (?m - c) + 1\<bar> < 2 ^ 53" using assms m by simp
    moreover have "(of_int (?m - c) :: rat) + 1 / 2 = of_int (2 * (?m - c) + 1) / 2"
      by (simp add: field_simps)
    ultimately show ?thesis
      unfolding fadd.simps using fl_half [of "2 * (?m - c) + 1"] by (simp only:)
  qed
  have ab: "\<bar>(of_int (2 * (?m - c) + 1) :: rat) / 2\<bar> + 1 / 2 = of_int (?k + 1)"
  proof (cases "even ?q")
    case True
    then have "?m = c + ?r" using shifted_mod [of c n] assms by simp
    with True r show ?thesis by (simp add: add_divide_distrib)
  next
    case False
    then have mr: "?m = ?r" using shifted_mod [of c n] assms by simp
    have "2 * (?r - c) + 1 < 0" using r by simp
    then have "(of_int (2 * (?r - c) + 1) :: rat) < 0"
      by (simp only: of_int_less_0_iff)
    then have "\<bar>(of_int (2 * (?r - c) + 1) :: rat) / 2\<bar> = - of_int (2 * (?r - c) + 1) / 2"
      by simp
    with False mr show ?thesis by (simp add: add_divide_distrib diff_divide_distrib)
  qed
  have k: "0 \<le> ?k" "?k < c" using r by auto
  have col: "fadd (np_absolute (Finite (of_int (2 * (?m - c) + 1) / 2))) (Finite (1 / 2))
               = Finite (of_int (?k + 1))"
  proof -
    have "\<bar>?k + 1\<bar> < 2 ^ 53" using k assms by simp
    from fl_int [OF this] show ?thesis unfolding np_absolute.simps fadd.simps ab .
  qed
  have col1: "fsub (Finite (of_int (?k + 1))) (Finite 1) = Finite (of_int ?k)"
    using k assms fsub_int [of "?k + 1" 1] by simp
  have ci: "py_int (Finite (of_int ?k)) = Inr ?k"
    using k by (simp add: trunc_def)
  have cnz: "Finite (of_int c) \<noteq> Finite 0" using assms by simp
  have b: "n < 2 ^ 53" "c < 2 ^ 53" using assms by simp_all
  have quo: "py_truediv (Finite (of_int n)) (Finite (of_int c))
               = Inr (Finite (round_double (of_int n / of_int c)))"
    using assms ceiling_round_quotient(2) [OF assms(3) b(1) assms(1) b(2)]
    by (simp add: py_truediv_def fl_def Let_def)
  have q0: "0 \<le> ?q" using assms by (simp add: pos_imp_zdiv_nonneg_iff)
  have qb: "?q < 2 ^ 51"
  proof -
    have "?q * 1 \<le> ?q * c" using q0 assms by (intro mult_left_mono) simp_all
    moreover have "n - 1 = ?q * c + ?r" by simp
    ultimately show ?thesis using r assms by linarith
  qed
  have row: "np_ceil (Finite (round_double (of_int n / of_int c))) = Finite (of_int (?q + 1))"
    using ceiling_round_quotient(1) [OF assms(3) b(1) assms(1) b(2)] by simp
  have row1: "fsub (Finite (of_int (?q + 1))) (Finite 1) = Finite (of_int ?q)"
    using q0 qb fsub_int [of "?q + 1" 1] by simp
  have ri: "py_int (Finite (of_int ?q)) = Inr ?q"
    using q0 by (simp add: trunc_def)
  show ?thesis
    unfolding row_col_of_index_def fn bindE_def Let_def
    by (simp only: sum.case s1 s2 d md s3 h col col1 ci quo row row1 ri serpentine_def)
qed







text \<open>The examples of the serpentine scan for rows of ten tiles.\<close>

lemma row_col_of_index_examples:
  "row_col_of_index (Finite 10) 1 = Inr (0, 0)" "row_col_of_index (Finite 10) 10 = Inr (0, 9)"
  "row_col_of_index (Finite 10) 11 = Inr (1, 9)" "row_col_of_index (Finite 10) 20 = Inr (1, 0)"
  using row_col_of_index_serpentine [of 10 1] row_col_of_index_serpentine [of 10 10]
    row_col_of_index_serpentine [of 10 11] row_col_of_index_serpentine [of 10 20]
  by (simp_all add: serpentine_def)

text \<open>
  The bound on the row length is needed. Beyond \<open>2^53\<close> the doubles no longer hold
  every integer: with \<^verbatim>\<open>self.ncol\<close> at \<open>2^53\<close> the sum \<open>2^53 + 1\<close> inside
  \<^verbatim>\<open>np.mod\<close> is rounded to \<open>2^53\<close>, and the indices 1 and 2 are decoded to
  the same cell.
\<close>

lemma ilog2_unique:
  assumes "0 < a" "2 powi e \<le> a" "a < 2 powi (e + 1)"
  shows "ilog2 a = e"
proof -
  have "2 powi (ilog2 a) \<le> a" "a < 2 powi (ilog2 a + 1)"
    using ilog2_bounds [OF assms(1)] by simp_all
  then have a: "(2::rat) powi (ilog2 a) < 2 powi (e + 1)" and b: "(2::rat) powi e < 2 powi (ilog2 a + 1)"
    using assms by linarith+
  have "ilog2 a < e + 1" using a by (rule pow2_less_D)
  moreover have "e < ilog2 a + 1" using b by (rule pow2_less_D)
  ultimately show ?thesis by simp
qed

lemma fl_tie_to_even: "fl 9007199254740993 = Finite 9007199254740992"
proof -
  have i: "ilog2 9007199254740993 = 53"
    by (rule ilog2_unique) (simp_all add: power_int_def)
  have f: "\<lfloor>9007199254740993 / (2::rat)\<rfloor> = 4503599627370496"
    by (rule floor_unique) simp_all
  have "round_double 9007199254740993 = 9007199254740992"
    by (simp add: round_double_def round_half_even_def Let_def power_int_def i f)
  then show ?thesis
    by (simp add: fl_def)
qed

lemma fl_exact_values:
  "fl 0 = Finite 0" "fl 1 = Finite 1" "fl (1 / 2) = Finite (1 / 2)"
  "fl (- 9007199254740991) = Finite (- 9007199254740991)"
  "fl (- 9007199254740990) = Finite (- 9007199254740990)"
  "fl (- 9007199254740992) = Finite (- 9007199254740992)"
  "fl 9007199254740992 = Finite 9007199254740992"
  "fl 18014398509481984 = Finite 18014398509481984"
  "fl (1 / 9007199254740992) = Finite (1 / 9007199254740992)"
  "fl (1 / 4503599627370496) = Finite (1 / 4503599627370496)"
proof -
  show "fl 0 = Finite 0" by (simp add: fl_def round_double_def)
  show "fl 1 = Finite 1" using fl_int [of 1] by simp
  show "fl (1 / 2) = Finite (1 / 2)" using fl_half [of 1] by simp
  show "fl (- 9007199254740991) = Finite (- 9007199254740991)"
    using fl_int [of "- 9007199254740991"] by simp
  show "fl (- 9007199254740990) = Finite (- 9007199254740990)"
    using fl_int [of "- 9007199254740990"] by simp
  show "fl (- 9007199254740992) = Finite (- 9007199254740992)"
    using round_double_exact [of "- 1" 53] by (simp add: fl_def power_int_def)
  show "fl 9007199254740992 = Finite 9007199254740992"
    using round_double_exact [of 1 53] by (simp add: fl_def power_int_def)
  show "fl 18014398509481984 = Finite 18014398509481984"
    using round_double_exact [of 1 54] by (simp add: fl_def power_int_def)
  show "fl (1 / 9007199254740992) = Finite (1 / 9007199254740992)"
    using round_double_exact [of 1 "- 53"] by (simp add: fl_def power_int_def power_divide)
  show "fl (1 / 4503599627370496) = Finite (1 / 4503599627370496)"
    using round_double_exact [of 1 "- 52"] by (simp add: fl_def power_int_def power_divide)
qed

lemma row_col_of_index_beyond_mantissa:
  "row_col_of_index (Finite 9007199254740992) 1 = Inr (0, 0)"
  "row_col_of_index (Finite 9007199254740992) 2 = Inr (0, 0)"
  "serpentine 9007199254740992 2 = (0, 1)"
proof -
  have f1: "float_of_int 1 = Inr (Finite 1)" and f2: "float_of_int 2 = Inr (Finite 2)"
    using fl_int [of 1] fl_int [of 2] by (simp_all add: float_of_int_def)
  have a1: "fsub (Finite 1) (Finite 9007199254740992) = Finite (- 9007199254740991)"
    and a2: "fsub (Finite 2) (Finite 9007199254740992) = Finite (- 9007199254740990)"
    and b1: "fsub (Finite (- 9007199254740991)) (Finite 1) = Finite (- 9007199254740992)"
    and b2: "fsub (Finite (- 9007199254740990)) (Finite 1) = Finite (- 9007199254740991)"
    and d: "fmul (Finite 2) (Finite 9007199254740992) = Finite 18014398509481984"
    and s3: "fsub (Finite 9007199254740992) (Finite 9007199254740992) = Finite 0"
    and h: "fadd (Finite 0) (Finite (1 / 2)) = Finite (1 / 2)"
    and col: "fadd (np_absolute (Finite (1 / 2))) (Finite (1 / 2)) = Finite 1"
    and one: "fsub (Finite 1) (Finite 1) = Finite 0"
    and zero: "py_int (Finite 0) = Inr 0"
    by (simp_all add: fsub_def fl_exact_values trunc_def)
  have t1: "trunc (- 9007199254740992 / 18014398509481984) = 0"
    and t2: "trunc (- 9007199254740991 / 18014398509481984) = 0"
    by (simp_all add: trunc_def ceiling_eq_iff)
  have m1: "np_mod (Finite (- 9007199254740992)) (Finite 18014398509481984) = Finite 9007199254740992"
    unfolding np_mod.simps t1 by (simp add: fl_exact_values)
  have m2: "np_mod (Finite (- 9007199254740991)) (Finite 18014398509481984) = Finite 9007199254740992"
    unfolding np_mod.simps t2 by (simp add: fl_tie_to_even)
  have q1: "py_truediv (Finite 1) (Finite 9007199254740992) = Inr (Finite (1 / 9007199254740992))"
    and q2: "py_truediv (Finite 2) (Finite 9007199254740992) = Inr (Finite (1 / 4503599627370496))"
    by (simp_all add: py_truediv_def fl_exact_values)
  have r1: "np_ceil (Finite (1 / 9007199254740992)) = Finite 1"
    and r2: "np_ceil (Finite (1 / 4503599627370496)) = Finite 1"
    by (simp_all add: ceiling_eq_iff)
  show "row_col_of_index (Finite 9007199254740992) 1 = Inr (0, 0)"
    unfolding row_col_of_index_def f1 bindE_def Let_def
    by (simp only: sum.case a1 b1 d m1 s3 h col one zero q1 r1)
  show "row_col_of_index (Finite 9007199254740992) 2 = Inr (0, 0)"
    unfolding row_col_of_index_def f2 bindE_def Let_def
    by (simp only: sum.case a2 b2 d m2 s3 h col one zero q2 r2)
  show "serpentine 9007199254740992 2 = (0, 1)"
    by (simp add: serpentine_def)
qed
















section \<open>Names the regular expression does not match\<close>

lemma no_match_row_col:
  "findall_tile_name path = [] \<Longrightarrow> get_row_col ncol path = Inl (UnboundLocalError ''n'')"
  by (simp add: get_row_col_def)

lemma no_match_channel: "findall_tile_name path = [] \<Longrightarrow> get_channel path = None"
  by (simp add: get_channel_def)

lemma findall_tmp: "findall_tile_name ''/data/0001/000000_tmp_1c/'' = []"
  by (simp add: findall_tile_name.simps match_tile_name_def is_digit_def)

lemma findall_tile1:
  "findall_tile_name ''/data/0001/000000_000001___1c/'' = [(''000001'', ''1'')]"
  by (simp add: findall_tile_name.simps match_tile_name_def is_digit_def)

lemma findall_tile2:
  "findall_tile_name ''/data/0001/000000_000002___1c/'' = [(''000002'', ''1'')]"
  by (simp add: findall_tile_name.simps match_tile_name_def is_digit_def)

lemma row_col_tile1:
  "get_row_col (SFloat (Finite 5)) ''/data/0001/000000_000001___1c/'' = Inr (0, 0)"
  using row_col_of_index_serpentine [of 5 1]
  by (simp add: get_row_col_def findall_tile1 int_of_digits_def digit_val_def serpentine_def)

lemma row_col_tile2:
  "get_row_col (SFloat (Finite 5)) ''/data/0001/000000_000002___1c/'' = Inr (0, 1)"
  using row_col_of_index_serpentine [of 5 2]
  by (simp add: get_row_col_def findall_tile2 int_of_digits_def digit_val_def serpentine_def)

lemma channel_tile1: "get_channel ''/data/0001/000000_000001___1c/'' = Some 1"
  by (simp add: get_channel_def findall_tile1 int_of_digits_def digit_val_def)

lemma channel_tile2: "get_channel ''/data/0001/000000_000002___1c/'' = Some 1"
  by (simp add: get_channel_def findall_tile2 int_of_digits_def digit_val_def)

text \<open>
  Claim C8 says that on a name the pattern does not match both decoders produce no
  index and do not raise. \<^verbatim>\<open>_get_channel\<close> does so (it returns \<^verbatim>\<open>None\<close>), but
  \<^verbatim>\<open>_get_row_col\<close> raises: on the folder \<^verbatim>\<open>000000_tmp_1c\<close>, whatever the row
  length, it ends with \<^verbatim>\<open>UnboundLocalError\<close> for its local \<^verbatim>\<open>n\<close>, and the
  clearscope watcher that finds this folder in its scan raises with it.
\<close>

theorem get_row_col_no_match_raises:
  "get_row_col ncol ''/data/0001/000000_tmp_1c/'' = Inl (UnboundLocalError ''n'')
   \<and> get_channel ''/data/0001/000000_tmp_1c/'' = None
   \<and> clearscope_is_new_tile_available acquisition 4 acquired = Inl (UnboundLocalError ''n'')"
  by (simp add: no_match_row_col no_match_channel findall_tmp
      clearscope_is_new_tile_available_def acquisition_def acquired_def os_path_join_def
      get_tile_def bindE_def)

section \<open>Properties of the default pipeline\<close>

lemma getattr_n_col: "getattr (base_vars self) ''n_col'' = Inl (AttributeError ''n_col'')"
  by (simp add: getattr_def base_vars_def)

lemma getattr_ncol: "getattr (base_vars self) ''ncol'' = Inr (VInt (bp_ncol self))"
  by (simp add: getattr_def base_vars_def)

lemma update_next_tile_fails: "\<exists>e. update_next_tile self = Inl e"
  by (cases "bp_current_tile self") (auto simp: update_next_tile_def getattr_n_col bindE_def)

lemma process_tile_fails: "\<exists>e. process_tile io self tile removed = Inl e"
proof -
  obtain e where "update_next_tile self = Inl e"
    using update_next_tile_fails by blast
  then show ?thesis
    by (auto simp: process_tile_def bindE_def split: sum.splits)
qed

text \<open>
  Claim C2 says that advancing the cursor from \<open>(row, col)\<close> yields \<open>(row, col + 1)\<close> or
  \<open>(row + 1, 0)\<close> and does not raise. In the code the advance raises for every current
  tile: \<^verbatim>\<open>_update_next_tile\<close> reads \<^verbatim>\<open>self.n_col\<close>, and the attribute the
  constructor assigns is \<^verbatim>\<open>ncol\<close>.
\<close>

theorem update_next_tile_raises:
  "update_next_tile (self\<lparr>bp_current_tile := Some (row, col)\<rparr>) = Inl (AttributeError ''n_col'')"
  by (simp add: update_next_tile_def getattr_n_col bindE_def)

text \<open>
  Claim C6. \<^verbatim>\<open>_check_conversion\<close> returns without raising and without handing any
  path to \<^verbatim>\<open>os.remove\<close>, for every tile: the raw data stays on disk after every
  conversion. \<^verbatim>\<open>_erase_from_disk\<close> has no other caller.
\<close>

theorem check_conversion_never_erases: "check_conversion io tile removed = Inr removed"
  by (simp add: check_conversion_def)

text \<open>
  A run that returns had nothing left to do when it started: as long as a tile is
  missing from the count, each round of the loop either polls again with the count
  unchanged or ends in an exception.
\<close>

lemma run_result_when_tiles_remain:
  assumes "run io dec self k removed = Some y"
  shows "bp_tile_processed self < bp_n_tiles self \<longrightarrow> (\<exists>e. y = Inl e)"
proof (rule run.raw_induct
    [where P = "\<lambda>io dec self k removed y. bp_tile_processed self < bp_n_tiles self \<longrightarrow> (\<exists>e. y = Inl e)",
      OF _ assms])
  fix loop :: "'a io \<Rightarrow> decoder \<Rightarrow> base_pipeline \<Rightarrow> nat \<Rightarrow> string list \<Rightarrow>
    (py_error + base_pipeline \<times> string list) option"
  fix io dec self k removed y
  assume IH: "\<And>io dec self k removed y. loop io dec self k removed = Some y \<Longrightarrow>
      bp_tile_processed self < bp_n_tiles self \<longrightarrow> (\<exists>e. y = Inl e)"
  assume body: "(if bp_tile_processed self < bp_n_tiles self then
        (case base_is_new_tile_available io dec k self of
           Inl e \<Rightarrow> Some (Inl e)
         | Inr ((is_available, tile), self1) \<Rightarrow>
             if is_available then
               (case tile of
                  None \<Rightarrow> Some (Inl (AttributeError ''path''))
                | Some t \<Rightarrow>
                    (case process_tile io self1 t removed of
                       Inl e \<Rightarrow> Some (Inl e)
                     | Inr (self2, removed2) \<Rightarrow> loop io dec self2 (k + 1) removed2))
             else loop io dec self1 (k + 1) removed)
      else Some (Inr (self, removed))) = Some y"
  show "bp_tile_processed self < bp_n_tiles self \<longrightarrow> (\<exists>e. y = Inl e)"
  proof
    assume lt: "bp_tile_processed self < bp_n_tiles self"
    show "\<exists>e. y = Inl e"
    proof (cases "base_is_new_tile_available io dec k self")
      case (Inl e)
      with body lt show ?thesis by auto
    next
      case (Inr r)
      obtain is_available tile self1 where r: "r = ((is_available, tile), self1)"
        by (metis prod.exhaust)
      show ?thesis
      proof (cases is_available)
        case True
        show ?thesis
        proof (cases tile)
          case None
          with body lt Inr r True show ?thesis by auto
        next
          case (Some t)
          obtain e where "process_tile io self1 t removed = Inl e"
            using process_tile_fails by blast
          with body lt Inr r True Some show ?thesis by auto
        qed
      next
        case False
        have "self1 = self"
          using Inr r False
          by (auto simp: base_is_new_tile_available_def Let_def bindE_def split: if_splits sum.splits)
        with body lt Inr r False have "loop io dec self (k + 1) removed = Some y" by auto
        from IH [OF this] lt show ?thesis by simp
      qed
    qed
  qed
qed

lemma run_never_counts_a_tile:
  assumes "bp_tile_processed self < bp_n_tiles self"
  shows "run io dec self k removed \<noteq> Some (Inr final)"
  using run_result_when_tiles_remain [of io dec self k removed "Inr final"] assms by auto

text \<open>
  Claim C5 says that the run loop ends with the processed count at \<open>nrow * ncol\<close> after
  that many detections. In the code the run on a grid of one tile, in a folder where
  the tile is there at the first poll, ends in the exception of the cursor advance
  before the tile is counted.
\<close>

theorem run_aborts_on_first_tile:
  "run every_tile_present name_decoder (base_init ''/data'' 1 1 1 ''tiff3D'') 0 []
     = Some (Inl (AttributeError ''n_col''))"
  apply (subst run.simps)
  apply (simp add: base_init_def base_is_new_tile_available_def next_tile_pattern_def
      every_tile_present_def name_decoder_def get_tile_def bindE_def process_tile_def
      load_tile_def load_data_def runningTile_def update_next_tile_def getattr_n_col)
  done

text \<open>
  With decoder hooks that return on every path, the default watcher returns
  \<open>(False, None)\<close> and leaves the pipeline unchanged when no file matches the pattern of
  the cursor; returns \<open>(True, tile)\<close>, the tile built from the one path and the hooks'
  answers, and records the cursor as current when exactly one file matches; and raises
  when more than one file matches, with the \<^verbatim>\<open>TypeError\<close> of the source.
\<close>

lemma watcher_cases_with_hooks:
  assumes "\<And>p. \<exists>rc. d_row_col dec p = Inr rc" and "\<And>p. \<exists>ch. d_channel dec p = Inr ch"
  shows "io_glob io k (next_tile_pattern self) = [] \<Longrightarrow>
           base_is_new_tile_available io dec k self = Inr ((False, None), self)"
    and "io_glob io k (next_tile_pattern self) = [p] \<Longrightarrow>
           \<exists>row col ch. d_row_col dec p = Inr (row, col) \<and> d_channel dec p = Inr ch
             \<and> base_is_new_tile_available io dec k self
                 = Inr ((True, Some (runningTile p row col (bp_type self) 2048 (bp_path self)
                                       ch (bp_n_channels self))),
                        self\<lparr>bp_current_tile := Some (bp_next_tile self)\<rparr>)"
    and "1 < length (io_glob io k (next_tile_pattern self)) \<Longrightarrow>
           base_is_new_tile_available io dec k self
             = Inl (TypeError ''Error: glob returned one than one file.'')"
proof -
  show "base_is_new_tile_available io dec k self = Inr ((False, None), self)"
    if "io_glob io k (next_tile_pattern self) = []"
    using that by (simp add: base_is_new_tile_available_def)
  show "\<exists>row col ch. d_row_col dec p = Inr (row, col) \<and> d_channel dec p = Inr ch
      \<and> base_is_new_tile_available io dec k self
           = Inr ((True, Some (runningTile p row col (bp_type self) 2048 (bp_path self)
                                      ch (bp_n_channels self))),
                        self\<lparr>bp_current_tile := Some (bp_next_tile self)\<rparr>)"
    if m: "io_glob io k (next_tile_pattern self) = [p]"
  proof -
    obtain row col where rc: "d_row_col dec p = Inr (row, col)"
      using assms(1) [of p] by (metis prod.exhaust)
    obtain ch where ch: "d_channel dec p = Inr ch"
      using assms(2) [of p] by blast
    show ?thesis
      using m rc ch
      by (simp add: base_is_new_tile_available_def get_tile_def bindE_def)
  qed
  show "base_is_new_tile_available io dec k self
          = Inl (TypeError ''Error: glob returned one than one file.'')"
    if "1 < length (io_glob io k (next_tile_pattern self))"
    using that by (auto simp: base_is_new_tile_available_def Let_def)
qed

text \<open>
  With the acquisition folder given as \<^verbatim>\<open>/data/*\<close>, two files match the pattern
  of the first cursor, and the watcher raises whatever the hooks are.
\<close>

lemma default_watcher_ambiguous:
  "base_is_new_tile_available wildcard_folder dec k (base_init ''/data/*'' 2 2 1 ''tiff3D'')
     = Inl (TypeError ''Error: glob returned one than one file.'')"
proof -
  have "next_tile_pattern (base_init ''/data/*'' 2 2 1 ''tiff3D'') = ''/data/*/0_0.tif''"
    by (simp add: next_tile_pattern_def base_init_def os_path_join_def str_of_int_def digit_char_def
        char_of_eq_iff)
  then have "io_glob wildcard_folder k (next_tile_pattern (base_init ''/data/*'' 2 2 1 ''tiff3D''))
               = [''/data/a/0_0.tif'', ''/data/b/0_0.tif'']"
    by (simp add: wildcard_folder_def)
  then show ?thesis
    by (simp add: base_is_new_tile_available_def)
qed

text \<open>
  On an instance of \<^verbatim>\<open>baseRunningPipeline\<close> itself, the class the default watcher
  belongs to, the hooks are missing attributes: whenever exactly one file matches, the
  watcher raises \<^verbatim>\<open>AttributeError\<close>, after it has recorded the cursor.
\<close>

lemma getattr_get_row_col:
  "getattr (base_vars self) ''_get_row_col'' = Inl (AttributeError ''_get_row_col'')"
  by (simp add: getattr_def base_vars_def)

lemma base_watcher_single_match:
  "io_glob io k (next_tile_pattern self) = [p] \<Longrightarrow>
     base_is_new_tile_available io (base_decoder self) k self
       = Inl (AttributeError ''_get_row_col'')"
  by (simp add: base_is_new_tile_available_def get_tile_def base_decoder_def bindE_def
      getattr_get_row_col)

lemma next_tile_pattern_first:
  "next_tile_pattern (base_init ''/data'' nrow ncol n_channels ftype) = ''/data/0_0.tif''"
  by (simp add: next_tile_pattern_def base_init_def os_path_join_def str_of_int_def digit_char_def
      char_of_eq_iff)

text \<open>
  Claim C7 says that the default watcher returns \<open>(True, tile)\<close> when exactly one file
  matches the pattern of the cursor, and raises if and only if more than one matches.
  In the code, take \<^verbatim>\<open>baseRunningPipeline('/data', 2, 2)\<close> and a folder in which
  \<^verbatim>\<open>/data/0_0.tif\<close> is written after the first poll. The first poll finds no file
  and returns \<open>(False, None)\<close>, as the claim says; the second finds exactly this one file
  and raises \<^verbatim>\<open>AttributeError\<close>: \<^verbatim>\<open>_get_tile\<close> calls
  \<^verbatim>\<open>self._get_row_col\<close>, which the class does not define.
\<close>

theorem default_watcher_raises_on_single_match:
  "base_is_new_tile_available one_tile_folder (base_decoder (base_init ''/data'' 2 2 1 ''tiff3D'')) 0
       (base_init ''/data'' 2 2 1 ''tiff3D'')
     = Inr ((False, None), base_init ''/data'' 2 2 1 ''tiff3D'')
   \<and> io_glob one_tile_folder 1 (next_tile_pattern (base_init ''/data'' 2 2 1 ''tiff3D''))
     = [''/data/0_0.tif'']
   \<and> base_is_new_tile_available one_tile_folder (base_decoder (base_init ''/data'' 2 2 1 ''tiff3D'')) 1
       (base_init ''/data'' 2 2 1 ''tiff3D'')
     = Inl (AttributeError ''_get_row_col'')"
proof -
  let ?s = "base_init ''/data'' 2 2 1 ''tiff3D''"
  have m0: "io_glob one_tile_folder 0 (next_tile_pattern ?s) = []"
    and m1: "io_glob one_tile_folder 1 (next_tile_pattern ?s) = [''/data/0_0.tif'']"
    unfolding next_tile_pattern_first by (simp_all add: one_tile_folder_def)
  have "base_is_new_tile_available one_tile_folder (base_decoder ?s) 0 ?s = Inr ((False, None), ?s)"
    using m0 by (simp add: base_is_new_tile_available_def)
  with m1 base_watcher_single_match [OF m1] show ?thesis by simp
qed

text \<open>
  The run of that pipeline in that folder ends in this exception, at the second poll.
\<close>

lemma run_ends_at_single_match:
  "run one_tile_folder (base_decoder (base_init ''/data'' 2 2 1 ''tiff3D''))
     (base_init ''/data'' 2 2 1 ''tiff3D'') 0 []
     = Some (Inl (AttributeError ''_get_row_col''))"
proof -
  let ?s = "base_init ''/data'' 2 2 1 ''tiff3D''"
  have lt: "bp_tile_processed ?s < bp_n_tiles ?s"
    by (simp add: base_init_def)
  have m0: "io_glob one_tile_folder 0 (next_tile_pattern ?s) = []"
    and m1: "io_glob one_tile_folder 1 (next_tile_pattern ?s) = [''/data/0_0.tif'']"
    unfolding next_tile_pattern_first by (simp_all add: one_tile_folder_def)
  have p0: "base_is_new_tile_available one_tile_folder (base_decoder ?s) 0 ?s = Inr ((False, None), ?s)"
    using m0 by (simp add: base_is_new_tile_available_def)
  have p1: "base_is_new_tile_available one_tile_folder (base_decoder ?s) (0 + 1) ?s
              = Inl (AttributeError ''_get_row_col'')"
    using base_watcher_single_match [OF m1] by simp
  have "run one_tile_folder (base_decoder ?s) ?s (0 + 1) [] = Some (Inl (AttributeError ''_get_row_col''))"
    by (subst run.simps) (simp only: lt p1 if_True sum.case)
  then show ?thesis
    by (subst run.simps) (simp only: lt p0 if_True if_False sum.case prod.case)
qed

section \<open>Properties of the clearscope pipeline\<close>

lemma wait_for_settings_found:
  "files \<noteq> [] \<Longrightarrow> wait_for_settings io self_path k files = Some files"
  by (subst wait_for_settings.simps) simp

text \<open>The waiting loop ends only when it is entered with a file or a retry finds one.\<close>

lemma wait_for_settings_stuck:
  assumes "wait_for_settings io self_path k files = Some found"
    and "\<And>j. io_glob io (Suc j) (retry_pattern self_path) = []"
  shows "files \<noteq> []"
proof -
  have "files = [] \<longrightarrow> (\<exists>j. io_glob io (Suc j) (retry_pattern self_path) \<noteq> [])"
  proof (rule wait_for_settings.raw_induct
      [where P = "\<lambda>io self_path k files found.
                    files = [] \<longrightarrow> (\<exists>j. io_glob io (Suc j) (retry_pattern self_path) \<noteq> [])",
        OF _ assms(1)])
    fix loop :: "'a io \<Rightarrow> string \<Rightarrow> nat \<Rightarrow> string list \<Rightarrow> string list option"
    fix io self_path k files found
    assume IH: "\<And>io self_path k files found. loop io self_path k files = Some found \<Longrightarrow>
        files = [] \<longrightarrow> (\<exists>j. io_glob io (Suc j) (retry_pattern self_path) \<noteq> [])"
    assume body: "(if files = []
        then loop io self_path (k + 1) (io_glob io (k + 1) (retry_pattern self_path))
        else Some files) = Some found"
    show "files = [] \<longrightarrow> (\<exists>j. io_glob io (Suc j) (retry_pattern self_path) \<noteq> [])"
    proof
      assume "files = []"
      with body have "loop io self_path (k + 1) (io_glob io (k + 1) (retry_pattern self_path)) = Some found"
        by simp
      from IH [OF this] show "\<exists>j. io_glob io (Suc j) (retry_pattern self_path) \<noteq> []"
        by (cases "io_glob io (k + 1) (retry_pattern self_path) = []") auto
    qed
  qed
  with assms(2) show ?thesis by auto
qed

lemma length_join_literal:
  assumes "b \<noteq> []" "hd b \<noteq> CHR ''/''"
  shows "length a + length b \<le> length (os_path_join a b)"
    and "length (os_path_join a b) \<le> length a + length b + 1"
  using assms by (simp_all add: os_path_join_def)

lemma retry_pattern_differs: "retry_pattern self_path \<noteq> settings_pattern self_path"
proof -
  let ?s = "''*_AcquireSettings.txt''"
  have "length (settings_pattern self_path) \<le> length self_path + length ?s + 1"
    unfolding settings_pattern_def by (rule length_join_literal) simp_all
  moreover have "length self_path + 4 \<le> length (os_path_join self_path ''0001'')"
    using length_join_literal(1) [of "''0001''" self_path] by simp
  moreover have "length (os_path_join self_path ''0001'') + length ?s
      \<le> length (retry_pattern self_path)"
    unfolding retry_pattern_def by (rule length_join_literal) simp_all
  ultimately have "length (settings_pattern self_path) < length (retry_pattern self_path)"
    by linarith
  then show ?thesis by auto
qed

text \<open>
  Claim C10. When the first scan of \<^verbatim>\<open>{path}/0001\<close> finds no settings file, every
  retry scans another pattern, that of \<^verbatim>\<open>{path}/0001/0001\<close>; so if no settings file
  ever appears there, the constructor never returns, whatever appears under
  \<^verbatim>\<open>{path}/0001\<close> after the first scan.
\<close>

theorem settings_wait_never_completes:
  assumes "io_glob io 0 (settings_pattern (os_path_join path ''0001'')) = []"
    and "\<And>k. io_glob io (Suc k) (retry_pattern (os_path_join path ''0001'')) = []"
  shows "clearscope_init io path n_channels = None
       \<and> retry_pattern (os_path_join path ''0001'') \<noteq> settings_pattern (os_path_join path ''0001'')
       \<and> retry_pattern (os_path_join path ''0001'')
           = os_path_join (os_path_join (os_path_join path ''0001'') ''0001'') ''*_AcquireSettings.txt''"
proof -
  let ?p = "os_path_join path ''0001''"
  have "wait_for_settings io ?p 0 [] = None"
  proof (cases "wait_for_settings io ?p 0 []")
    case (Some found)
    from wait_for_settings_stuck [OF Some assms(2)] show ?thesis by simp
  qed simp
  then have "parse_acquisition_settings io ?p = None"
    using assms(1) by (simp add: parse_acquisition_settings_def)
  then show ?thesis
    by (simp add: clearscope_init_def retry_pattern_differs) (simp add: retry_pattern_def)
qed

theorem settings_wait_never_completes_witness:
  "clearscope_init late_settings ''/data'' 1 = None
   \<and> io_glob late_settings 1 (settings_pattern (os_path_join ''/data'' ''0001''))
       = [''/data/0001/scan_AcquireSettings.txt'']"
proof -
  have a: "io_glob late_settings 0 (settings_pattern (os_path_join ''/data'' ''0001'')) = []"
    by (simp add: late_settings_def)
  have b: "\<And>k. io_glob late_settings (Suc k) (retry_pattern (os_path_join ''/data'' ''0001'')) = []"
    by (simp add: late_settings_def retry_pattern_def os_path_join_def)
  have "io_glob late_settings 1 (settings_pattern (os_path_join ''/data'' ''0001''))
       = [''/data/0001/scan_AcquireSettings.txt'']"
    by (simp add: late_settings_def settings_pattern_def os_path_join_def)
  with settings_wait_never_completes [OF a b, of 1] show ?thesis by simp
qed

text \<open>The settings dictionary, line by line.\<close>

lemma map_of_dict_set: "map_of (dict_set k x d) k' = (if k' = k then Some x else map_of d k')"
  by (induction d) auto

lemma parse_lines_append:
  "parse_lines d (xs @ ys) = bindE (parse_lines d xs) (\<lambda>d'. parse_lines d' ys)"
  by (induction xs arbitrary: d) (auto simp: bindE_def split: sum.splits)

lemma parse_line_other_key:
  assumes "parse_line d l = Inr d'" and "\<And>x. match_setting l \<noteq> Some (K, x)"
  shows "map_of d' K = map_of d K"
proof (cases "match_setting l")
  case None
  with assms(1) show ?thesis by (simp add: parse_line_def)
next
  case (Some m)
  obtain key v where m: "m = (key, v)" by (cases m)
  with Some assms(2) have "key \<noteq> K" by auto
  moreover have "\<exists>x. d' = dict_set key x d"
    using assms(1) Some m
    by (auto simp: parse_line_def bindE_def split: if_splits sum.splits)
  ultimately show ?thesis by (auto simp: map_of_dict_set)
qed

lemma parse_lines_other_key:
  assumes "parse_lines d ls = Inr d'" and "\<forall>l \<in> set ls. \<forall>x. match_setting l \<noteq> Some (K, x)"
  shows "map_of d' K = map_of d K"
  using assms
proof (induction ls arbitrary: d)
  case Nil
  then show ?case by simp
next
  case (Cons l ls)
  from Cons.prems(1) obtain d1 where l: "parse_line d l = Inr d1" and ls: "parse_lines d1 ls = Inr d'"
    by (auto simp: bindE_def split: sum.splits)
  have "map_of d1 K = map_of d K"
    using parse_line_other_key [OF l] Cons.prems(2) by simp
  moreover have "map_of d' K = map_of d1 K"
    using Cons.IH [OF ls] Cons.prems(2) by simp
  ultimately show ?case by simp
qed

lemma word_chars_scan_grid_y:
  "takeWhile is_word_char (''ScanGridY = '' @ rest) = ''ScanGridY''"
  "dropWhile is_word_char (''ScanGridY = '' @ rest) = '' = '' @ rest"
  by (simp_all add: is_word_char_def in_range_def)

lemma match_setting_scan_grid_y:
  assumes "newline \<notin> set v" and "eol = [] \<or> eol = [newline]"
  shows "match_setting (''ScanGridY = '' @ v @ eol) = Some (''ScanGridY'', v)"
proof -
  have "takeWhile (\<lambda>c. c \<noteq> newline) (v @ eol) = v"
    "dropWhile (\<lambda>c. c \<noteq> newline) (v @ eol) = eol"
    using assms by (induction v) auto
  then show ?thesis
    unfolding match_setting_def word_chars_scan_grid_y Let_def using assms(2) by auto
qed

text \<open>What the line \<^verbatim>\<open>ScanGridY = v\<close> stores under its key.\<close>

lemma parse_line_scan_grid_y:
  assumes "newline \<notin> set v" and "eol = [] \<or> eol = [newline]"
    and "parse_line d (''ScanGridY = '' @ v @ eol) = Inr d'"
  shows "(isnumeric v \<and> list_all is_digit v
            \<and> map_of d' ''ScanGridY'' = Some (SFloat (fl (of_int (int_of_digits v)))))
       \<or> (v = ''True'' \<and> map_of d' ''ScanGridY'' = Some (SBool True))
       \<or> (v = ''False'' \<and> map_of d' ''ScanGridY'' = Some (SBool False))
       \<or> map_of d' ''ScanGridY'' = Some (SStr v)"
  using assms(3) unfolding parse_line_def match_setting_scan_grid_y [OF assms(1,2)]
  by (auto simp: bindE_def float_of_numeric_def map_of_dict_set split: if_splits)

lemma fl_small_numerals:
  "fl 3 = Finite 3" "fl 5 = Finite 5" "fl 25 = Finite 25" "fl 100 = Finite 100"
  using fl_int [of 3] fl_int [of 5] fl_int [of 25] fl_int [of 100] by simp_all

lemma clearscope_init_acquisition: "clearscope_init acquisition ''/data'' 1 = Some (Inr acquired)"
proof -
  have "parse_acquisition_settings acquisition ''/data/0001''
      = Some (Inr ([(''ScanGridX'', SFloat (Finite 3)), (''ScanGridY'', SFloat (Finite 5)),
                    (''StackDepths'', SFloat (Finite 100))],
                   SFloat (Finite 5), SFloat (Finite 5)))"
    by (simp add: parse_acquisition_settings_def wait_for_settings_found acquisition_def
        settings_pattern_def os_path_join_def bindE_def getitem_def
        parse_line_def match_setting_def is_word_char_def is_numeric_char_def in_range_def
        newline_def isnumeric_def float_of_numeric_def
        is_digit_def int_of_digits_def digit_val_def fl_small_numerals)
  then show ?thesis
    by (simp add: clearscope_init_def os_path_join_def bindE_def acquired_def fl_small_numerals)
qed

text \<open>
  Claim C9 says that the grid of every clearscope pipeline is square, with both sizes
  the float of \<^verbatim>\<open>ScanGridY\<close>. The sizes are equal, but they need not be floats:
  a settings file with the line \<^verbatim>\<open>ScanGridY = True\<close> gives a pipeline whose
  \<^verbatim>\<open>nrow\<close> and \<^verbatim>\<open>ncol\<close> are the boolean \<^verbatim>\<open>True\<close> and whose
  \<^verbatim>\<open>n_tiles\<close> is the integer 1.
\<close>

theorem clearscope_grid_not_float:
  "clearscope_init boolean_grid ''/data'' 1
     = Some (Inr (acquired\<lparr>cs_acq_param := Some [(''ScanGridX'', SFloat (Finite 3)),
                                                  (''ScanGridY'', SBool True),
                                                  (''StackDepths'', SFloat (Finite 100))],
                           cs_nrow := SBool True, cs_ncol := SBool True, cs_n_tiles := VInt 1\<rparr>))"
proof -
  have "parse_acquisition_settings boolean_grid ''/data/0001''
      = Some (Inr ([(''ScanGridX'', SFloat (Finite 3)), (''ScanGridY'', SBool True),
                    (''StackDepths'', SFloat (Finite 100))],
                   SBool True, SBool True))"
    by (simp add: parse_acquisition_settings_def wait_for_settings_found boolean_grid_def
        settings_pattern_def os_path_join_def bindE_def getitem_def
        parse_line_def match_setting_def is_word_char_def is_numeric_char_def in_range_def
        newline_def isnumeric_def float_of_numeric_def
        is_digit_def int_of_digits_def digit_val_def fl_small_numerals)
  then show ?thesis
    by (simp add: clearscope_init_def os_path_join_def bindE_def acquired_def)
qed

text \<open>
  Claim C9, amended. Let \<open>f\<close> be the settings file the startup reads (the first file the
  wait returns), and let its last line for the key \<^verbatim>\<open>ScanGridY\<close> be
  \<^verbatim>\<open>ScanGridY = v\<close> (ended by a newline or by the end of the file), whatever the
  other lines, those for \<^verbatim>\<open>ScanGridX\<close> included. Then every pipeline the constructor returns has \<open>nrow = ncol\<close>, and either
  \<open>v\<close> is a string of decimal digits, both sizes are the float of the number it spells
  and \<open>n_tiles\<close> is the float product of that number with itself; or \<open>v\<close> is
  \<^verbatim>\<open>True\<close>, both sizes are the boolean and \<open>n_tiles\<close> is the integer 1; or \<open>v\<close>
  is \<^verbatim>\<open>False\<close>, both sizes are the boolean and \<open>n_tiles\<close> is the integer 0. With
  any other \<open>v\<close> the constructor raises.
\<close>

theorem clearscope_grid_is_square:
  assumes found: "wait_for_settings io (os_path_join path ''0001'') 0
                    (io_glob io 0 (settings_pattern (os_path_join path ''0001''))) = Some (f # fs)"
    and lines: "io_readlines io f = Inr (pre @ [''ScanGridY = '' @ v @ eol] @ post)"
    and v: "newline \<notin> set v" and eol: "eol = [] \<or> eol = [newline]"
    and last: "\<forall>l \<in> set post. \<forall>x. match_setting l \<noteq> Some (''ScanGridY'', x)"
    and init: "clearscope_init io path n_channels = Some (Inr self)"
  shows "cs_nrow self = cs_ncol self
       \<and> ((v \<noteq> [] \<and> list_all is_digit v
              \<and> cs_nrow self = SFloat (fl (of_int (int_of_digits v)))
              \<and> cs_n_tiles self = VFloat (fmul (fl (of_int (int_of_digits v)))
                                               (fl (of_int (int_of_digits v)))))
          \<or> (v = ''True'' \<and> cs_nrow self = SBool True \<and> cs_n_tiles self = VInt 1)
          \<or> (v = ''False'' \<and> cs_nrow self = SBool False \<and> cs_n_tiles self = VInt 0))"
proof -
  let ?p = "os_path_join path ''0001''"
  let ?L = "''ScanGridY = '' @ v @ eol"
  have r: "parse_acquisition_settings io ?p
             = Some (bindE (parse_lines [] (pre @ [?L] @ post)) (\<lambda>acq_param.
                     bindE (getitem acq_param ''ScanGridY'') (\<lambda>nrow.
                     bindE (getitem acq_param ''ScanGridY'') (\<lambda>ncol.
                     bindE (getitem acq_param ''StackDepths'') (\<lambda>n_planes.
                       Inr (acq_param, nrow, ncol))))))"
    unfolding parse_acquisition_settings_def found using lines by (simp add: bindE_def)
  from init obtain d val nt where d: "parse_lines [] (pre @ [?L] @ post) = Inr d"
    and val: "getitem d ''ScanGridY'' = Inr val"
    and nt: "setting_mul val val = Inr nt"
    and self: "cs_nrow self = val" "cs_ncol self = val" "cs_n_tiles self = nt"
    unfolding clearscope_init_def Let_def r
    by (auto simp: bindE_def split: sum.splits)
  from d obtain d1 d2 where "parse_lines [] pre = Inr d1"
    and d2: "parse_line d1 ?L = Inr d2" and post: "parse_lines d2 post = Inr d"
    unfolding parse_lines_append by (auto simp: bindE_def split: sum.splits)
  have "map_of d ''ScanGridY'' = map_of d2 ''ScanGridY''"
    using parse_lines_other_key [OF post last] .
  moreover have "map_of d ''ScanGridY'' = Some val"
    using val by (auto simp: getitem_def split: option.splits)
  ultimately have m: "map_of d2 ''ScanGridY'' = Some val" by simp
  from parse_line_scan_grid_y [OF v eol d2] m
  consider (num) "isnumeric v" "list_all is_digit v" "val = SFloat (fl (of_int (int_of_digits v)))"
    | (true) "v = ''True''" "val = SBool True"
    | (false) "v = ''False''" "val = SBool False"
    | (str) "val = SStr v"
    by auto
  then show ?thesis
  proof cases
    case num
    with nt self show ?thesis by (auto simp: isnumeric_def)
  next
    case true
    with nt self show ?thesis by auto
  next
    case false
    with nt self show ?thesis by auto
  next
    case str
    with nt show ?thesis by simp
  qed
qed

text \<open>
  A settings file with \<^verbatim>\<open>ScanGridX = 3\<close> and \<^verbatim>\<open>ScanGridY = 5\<close>: the
  pipeline is a grid of 5.0 by 5.0 with 25.0 tiles.
\<close>

theorem clearscope_grid_is_square_witness:
  "clearscope_init acquisition ''/data'' 1 = Some (Inr acquired)
   \<and> getitem (the (cs_acq_param acquired)) ''ScanGridX'' = Inr (SFloat (Finite 3))
   \<and> cs_nrow acquired = SFloat (Finite 5) \<and> cs_ncol acquired = SFloat (Finite 5)
   \<and> cs_n_tiles acquired = VFloat (Finite 25)"
proof -
  have found: "wait_for_settings acquisition (os_path_join ''/data'' ''0001'') 0
                 (io_glob acquisition 0 (settings_pattern (os_path_join ''/data'' ''0001'')))
               = Some (''/data/0001/scan_AcquireSettings.txt'' # [])"
    by (simp add: wait_for_settings_found acquisition_def settings_pattern_def os_path_join_def)
  have lines: "io_readlines acquisition ''/data/0001/scan_AcquireSettings.txt''
                 = Inr ([''ScanGridX = 3'' @ [newline]] @ [''ScanGridY = '' @ ''5'' @ [newline]]
                        @ [''StackDepths = 100'' @ [newline]])"
    by (simp add: acquisition_def)
  have v: "newline \<notin> set ''5''"
    by (simp add: newline_def)
  have eol: "[newline] = [] \<or> [newline] = [newline]"
    by simp
  have last: "\<forall>l \<in> set [''StackDepths = 100'' @ [newline]].
                \<forall>x. match_setting l \<noteq> Some (''ScanGridY'', x)"
    by (simp add: match_setting_def is_word_char_def in_range_def newline_def)
  have sgx: "getitem (the (cs_acq_param acquired)) ''ScanGridX'' = Inr (SFloat (Finite 3))"
    by (simp add: acquired_def getitem_def)
  have five: "int_of_digits ''5'' = 5"
    by (simp add: int_of_digits_def digit_val_def)
  show ?thesis
    using clearscope_grid_is_square [OF found lines v eol last clearscope_init_acquisition]
      clearscope_init_acquisition sgx
    by (auto simp: five fl_small_numerals)
qed

text \<open>
  Claim C3 says that the clearscope watcher, on a non-empty buffer, reports availability
  and returns the tile of the buffer's head, always as a pair. In the code the tile is
  built from the first path of the current scan. After a first poll has put the folder
  of index 1 in the buffer, a poll whose scan lists the folder of index 2 first returns
  the tile of index 2 while the head of the buffer is still the folder of index 1; and
  a poll whose scan finds nothing returns \<^verbatim>\<open>None\<close>, not a pair, although the buffer
  is not empty.
\<close>

theorem clearscope_watcher_returns_scan_head:
  "clearscope_is_new_tile_available acquisition 1 acquired
     = Inr (Some (True, Some (runningTile ''/data/0001/000000_000001___1c/'' 0 0 ''clearscope'' 2048
                                ''/data/0001'' (Some 1) 1)),
            acquired\<lparr>cs_buffer_tile_to_be_processed := [''/data/0001/000000_000001___1c/'']\<rparr>)
   \<and> clearscope_is_new_tile_available acquisition 3
        (acquired\<lparr>cs_buffer_tile_to_be_processed := [''/data/0001/000000_000001___1c/'']\<rparr>)
     = Inr (Some (True, Some (runningTile ''/data/0001/000000_000002___1c/'' 0 1 ''clearscope'' 2048
                                ''/data/0001'' (Some 1) 1)),
            acquired\<lparr>cs_buffer_tile_to_be_processed :=
              [''/data/0001/000000_000001___1c/'', ''/data/0001/000000_000002___1c/'',
               ''/data/0001/000000_000001___1c/'']\<rparr>)
   \<and> clearscope_is_new_tile_available acquisition 5
        (acquired\<lparr>cs_buffer_tile_to_be_processed := [''/data/0001/000000_000001___1c/'']\<rparr>)
     = Inr (None, acquired\<lparr>cs_buffer_tile_to_be_processed := [''/data/0001/000000_000001___1c/'']\<rparr>)"
  by (simp add: clearscope_is_new_tile_available_def acquisition_def acquired_def os_path_join_def
      get_tile_def bindE_def row_col_tile1 row_col_tile2 channel_tile1 channel_tile2)

text \<open>
  Claim C4 says that the buffer never holds a path twice. In the code every poll
  appends its whole scan: a second poll that sees the folder of index 1 again leaves it
  in the buffer twice.
\<close>

theorem clearscope_buffer_duplicates:
  "clearscope_is_new_tile_available acquisition 2
        (acquired\<lparr>cs_buffer_tile_to_be_processed := [''/data/0001/000000_000001___1c/'']\<rparr>)
     = Inr (Some (True, Some (runningTile ''/data/0001/000000_000001___1c/'' 0 0 ''clearscope'' 2048
                                ''/data/0001'' (Some 1) 1)),
            acquired\<lparr>cs_buffer_tile_to_be_processed :=
              [''/data/0001/000000_000001___1c/'', ''/data/0001/000000_000001___1c/'']\<rparr>)
   \<and> \<not> distinct [''/data/0001/000000_000001___1c/'', ''/data/0001/000000_000001___1c/'']"
  by (simp add: clearscope_is_new_tile_available_def acquisition_def acquired_def os_path_join_def
      get_tile_def bindE_def row_col_tile1 channel_tile1)

end
